theory Spec2Isabelle
  imports Complex_Main
begin

section \<open>JavaScript values\<close>

text \<open>
  A JavaScript string is a sequence of UTF-16 code units; a code unit is modelled by
  its number (0 .. 65535). The degree sign of a coordinate string is the single code
  unit 176 (U+00B0), the comma is 44. \<open>str\<close> turns an ASCII literal into such a string.
\<close>

type_synonym jsstring = "nat list"

definition str :: "string \<Rightarrow> jsstring" where
  "str s = map of_char s"

text \<open>
  A Number is an IEEE double. \<open>Finite q\<close> stands for the double nearest to the
  rational \<open>q\<close> (both zeros are \<open>Finite 0\<close>); the program below only asks whether a
  number is NaN, and whether it is zero (truthiness).
\<close>

datatype number = NaN | PosInfinity | NegInfinity | Finite rat

definition isNaN :: "number \<Rightarrow> bool" where
  "isNaN n = (n = NaN)"

text \<open>
  The values \<open>JSON.parse\<close> produces, and \<open>undefined\<close>, which reading a missing
  property produces. An object is its property table, in the order of the document.
\<close>

datatype jsval =
    JUndefined
  | JNull
  | JBool bool
  | JNum number
  | JStr jsstring
  | JArr "jsval list"
  | JObj "(jsstring \<times> jsval) list"

text \<open>What a call can throw: a TypeError of the language, or an error of the Leaflet
  library.\<close>

datatype js_error = TypeError | LeafletError

text \<open>ToBoolean: what \<open>if (v)\<close>, \<open>v && w\<close>, \<open>v || w\<close> and \<open>!v\<close> test.\<close>

fun truthy :: "jsval \<Rightarrow> bool" where
  "truthy JUndefined = False"
| "truthy JNull = False"
| "truthy (JBool b) = b"
| "truthy (JNum n) = (n \<noteq> NaN \<and> n \<noteq> Finite 0)"
| "truthy (JStr s) = (s \<noteq> [])"
| "truthy (JArr xs) = True"
| "truthy (JObj ps) = True"

text \<open>
  The property read \<open>v.k\<close>, for the property names the program reads
  (\<open>semanticSegments\<close>, \<open>visit\<close>, \<open>topCandidate\<close>, \<open>placeLocation\<close>, \<open>latLng\<close>,
  \<open>startTime\<close>, \<open>address\<close>, \<open>name\<close>, \<open>probability\<close>): it throws a TypeError on
  \<open>null\<close> and \<open>undefined\<close>, reads the table of an object, and is \<open>undefined\<close> on a
  number, a boolean, a string or an array, none of which has a property of these names.
\<close>

fun get :: "jsval \<Rightarrow> jsstring \<Rightarrow> js_error + jsval" where
  "get JUndefined k = Inl TypeError"
| "get JNull k = Inl TypeError"
| "get (JObj ps) k = Inr (case map_of ps k of None \<Rightarrow> JUndefined | Some v \<Rightarrow> v)"
| "get v k = Inr JUndefined"

text \<open>
  The conversion of a value to a primitive, as a template literal \<open>`${v}`\<close> and
  \<open>new Date(v)\<close> perform it. On a parsed object it looks up \<open>toString\<close> (and
  \<open>valueOf\<close>, which for an object returns no primitive): an own property of that
  name is never a function in parsed JSON, so the conversion throws a TypeError exactly
  when the object has its own \<open>toString\<close> key; without one the inherited method
  gives \<open>[object Object]\<close>. An array is joined, which converts each element other
  than \<open>null\<close> in turn. Numbers, strings, booleans, \<open>null\<close> and \<open>undefined\<close>
  never throw.
\<close>

definition k_toString :: jsstring where "k_toString = str ''toString''"

fun toString_throws :: "jsval \<Rightarrow> bool" where
  "toString_throws (JObj ps) = (map_of ps k_toString \<noteq> None)"
| "toString_throws (JArr xs) = (\<exists>x \<in> set xs. toString_throws x)"
| "toString_throws v = False"

text \<open>Sequencing of computations that may throw.\<close>

definition bnd :: "js_error + 'a \<Rightarrow> ('a \<Rightarrow> js_error + 'b) \<Rightarrow> js_error + 'b" where
  "bnd m f = (case m of Inl e \<Rightarrow> Inl e | Inr x \<Rightarrow> f x)"

section \<open>String operations of the coordinate parser\<close>

text \<open>\<open>s.replace(/\<degree>/g, '')\<close>: every degree sign removed.\<close>

definition replace_degree :: "jsstring \<Rightarrow> jsstring" where
  "replace_degree s = filter (\<lambda>c. c \<noteq> 176) s"

text \<open>\<open>s.split(',')\<close>: the pieces between commas; a string with no comma (also the
  empty string) gives one piece.\<close>

fun split_comma :: "jsstring \<Rightarrow> jsstring list" where
  "split_comma [] = [[]]"
| "split_comma (c # cs) =
     (if c = 44 then [] # split_comma cs
      else (case split_comma cs of [] \<Rightarrow> [[c]] | p # ps \<Rightarrow> (c # p) # ps))"

text \<open>White space and line terminators, as \<open>trim\<close> and \<open>parseFloat\<close> strip them.\<close>

definition isStrWhiteSpaceChar :: "nat \<Rightarrow> bool" where
  "isStrWhiteSpaceChar c \<longleftrightarrow>
     c \<in> {9, 10, 11, 12, 13, 32, 160, 5760, 8232, 8233, 8239, 8287, 12288, 65279}
     \<or> (8192 \<le> c \<and> c \<le> 8202)"

definition trimStart :: "jsstring \<Rightarrow> jsstring" where
  "trimStart s = dropWhile isStrWhiteSpaceChar s"

definition trim :: "jsstring \<Rightarrow> jsstring" where
  "trim s = rev (dropWhile isStrWhiteSpaceChar (rev (dropWhile isStrWhiteSpaceChar s)))"

definition isDigit :: "nat \<Rightarrow> bool" where
  "isDigit c \<longleftrightarrow> 48 \<le> c \<and> c \<le> 57"

definition digitsValue :: "jsstring \<Rightarrow> nat" where
  "digitsValue ds = foldl (\<lambda>a c. 10 * a + (c - 48)) 0 ds"

text \<open>The sign of a literal: \<open>-\<close> is 45, \<open>+\<close> is 43.\<close>

definition signOf :: "jsstring \<Rightarrow> bool \<times> jsstring" where
  "signOf s = (case s of [] \<Rightarrow> (False, [])
     | c # r \<Rightarrow> if c = 45 then (True, r) else if c = 43 then (False, r) else (False, s))"

text \<open>The exponent part \<open>e\<close> or \<open>E\<close>, an optional sign and at least one digit; a
  string that does not start with one has exponent 0 (the longest prefix that is a
  literal ends before it).\<close>

definition exponentOf :: "jsstring \<Rightarrow> int" where
  "exponentOf s = (case s of [] \<Rightarrow> 0
     | c # r \<Rightarrow>
        if c = 101 \<or> c = 69 then
          (let (neg, u) = signOf r; ds = takeWhile isDigit u in
           if ds = [] then 0
           else if neg then - int (digitsValue ds) else int (digitsValue ds))
        else 0)"

definition pow10 :: "int \<Rightarrow> rat" where
  "pow10 e = (if 0 \<le> e then 10 ^ nat e else 1 / 10 ^ nat (- e))"

text \<open>
  \<open>parseFloat\<close>: leading white space is skipped, then the longest prefix that is a
  decimal literal is read: a sign, then \<open>Infinity\<close> or digits with an optional
  fraction and exponent. NaN when there is no such prefix.
\<close>

definition parseFloat :: "jsstring \<Rightarrow> number" where
  "parseFloat s =
     (let (neg, u) = signOf (trimStart s) in
      if take 8 u = str ''Infinity'' then (if neg then NegInfinity else PosInfinity)
      else
        (let ip = takeWhile isDigit u;
             r1 = dropWhile isDigit u;
             (fp, r2) = (case r1 of [] \<Rightarrow> ([], [])
                 | c # r \<Rightarrow> if c = 46 then (takeWhile isDigit r, dropWhile isDigit r)
                           else ([], r1))
         in if ip = [] \<and> fp = [] then NaN
            else
              (let m = of_nat (digitsValue ip) + of_nat (digitsValue fp) / 10 ^ length fp;
                   v = m * pow10 (exponentOf r2)
               in Finite (if neg then - v else v))))"

section \<open>The timeline normalizer: processTimelineData\<close>

text \<open>One element of \<open>allLocations\<close>, as the program builds it.\<close>

record location =
  lat :: number
  lng :: number
  startTime :: jsval
  address :: jsval
  name :: jsval
  probability :: jsval

definition k_semanticSegments :: jsstring where "k_semanticSegments = str ''semanticSegments''"
definition k_visit :: jsstring where "k_visit = str ''visit''"
definition k_topCandidate :: jsstring where "k_topCandidate = str ''topCandidate''"
definition k_placeLocation :: jsstring where "k_placeLocation = str ''placeLocation''"
definition k_latLng :: jsstring where "k_latLng = str ''latLng''"
definition k_startTime :: jsstring where "k_startTime = str ''startTime''"
definition k_address :: jsstring where "k_address = str ''address''"
definition k_name :: jsstring where "k_name = str ''name''"
definition k_probability :: jsstring where "k_probability = str ''probability''"

text \<open>
  The body of \<open>segments.forEach(segment => ...)\<close> (script, lines 164-189 of
  \<open>src/unnamed/part_001\<close>): it returns \<open>allLocations\<close> after
  the call, or the TypeError the call throws. \<open>latLngStr.replace\<close> is a function only
  when \<open>latLngStr\<close> is a string; calling it on any other (truthy) value throws.
\<close>

definition forEach_callback :: "jsval \<Rightarrow> location list \<Rightarrow> js_error + location list" where
  "forEach_callback segment allLocs =
     bnd (get segment k_visit) (\<lambda>visit.
       if \<not> truthy visit then Inr allLocs
       else bnd (get visit k_topCandidate) (\<lambda>topCandidate.
         if \<not> truthy topCandidate then Inr allLocs
         else bnd (get topCandidate k_placeLocation) (\<lambda>placeLocation.
           if \<not> truthy placeLocation then Inr allLocs
           else bnd (get placeLocation k_latLng) (\<lambda>latLngStr.
             if \<not> truthy latLngStr then Inr allLocs
             else (case latLngStr of
                 JStr s \<Rightarrow>
                   (let parts = split_comma (replace_degree s) in
                    if length parts = 2 then
                      (let lat = parseFloat (trim (parts ! 0));
                           lng = parseFloat (trim (parts ! 1))
                       in if \<not> isNaN lat \<and> \<not> isNaN lng then
                            bnd (get segment k_startTime) (\<lambda>st.
                            bnd (get placeLocation k_address) (\<lambda>ad.
                            bnd (get placeLocation k_name) (\<lambda>nm.
                            bnd (get visit k_probability) (\<lambda>pr.
                              Inr (allLocs @ [\<lparr> lat = lat, lng = lng, startTime = st,
                                               address = ad, name = nm, probability = pr \<rparr>])))))
                          else Inr allLocs)
                    else Inr allLocs)
               | _ \<Rightarrow> Inl TypeError)))))"

text \<open>
  \<open>forEach\<close> over the array, on the growing \<open>allLocations\<close>. A throwing call ends the
  loop; \<open>allLocations\<close> keeps what was pushed before it.
\<close>

fun forEach :: "jsval list \<Rightarrow> location list \<Rightarrow> js_error option \<times> location list" where
  "forEach [] allLocs = (None, allLocs)"
| "forEach (segment # rest) allLocs =
     (case forEach_callback segment allLocs of
        Inl e \<Rightarrow> (Some e, allLocs)
      | Inr allLocs' \<Rightarrow> forEach rest allLocs')"


section \<open>The marker layer: renderMarkers\<close>

text \<open>
  \<open>parseInt(s)\<close> with no radix: leading white space and a sign are skipped, a prefix
  \<open>0x\<close> or \<open>0X\<close> selects base 16, and the longest prefix of digits is read. \<open>None\<close>
  is NaN (no digit).
\<close>

definition isHexDigit :: "nat \<Rightarrow> bool" where
  "isHexDigit c \<longleftrightarrow> (48 \<le> c \<and> c \<le> 57) \<or> (97 \<le> c \<and> c \<le> 102) \<or> (65 \<le> c \<and> c \<le> 70)"

definition hexDigitValue :: "nat \<Rightarrow> nat" where
  "hexDigitValue c =
     (if c \<le> 57 then c - 48 else if 97 \<le> c then c - 87 else c - 55)"

definition hexValue :: "jsstring \<Rightarrow> nat" where
  "hexValue ds = foldl (\<lambda>a c. 16 * a + hexDigitValue c) 0 ds"

definition parseInt :: "jsstring \<Rightarrow> int option" where
  "parseInt s =
     (let (neg, u) = signOf (trimStart s) in
      if take 2 u = str ''0x'' \<or> take 2 u = str ''0X'' then
        (let ds = takeWhile isHexDigit (drop 2 u) in
         if ds = [] then None
         else Some (if neg then - int (hexValue ds) else int (hexValue ds)))
      else
        (let ds = takeWhile isDigit u in
         if ds = [] then None
         else Some (if neg then - int (digitsValue ds) else int (digitsValue ds))))"

text \<open>\<open>a === b\<close> on two Numbers that are integers or NaN (\<open>None\<close>): NaN equals nothing.\<close>

definition strictEquals :: "int option \<Rightarrow> int option \<Rightarrow> bool" where
  "strictEquals a b = (case (a, b) of (Some x, Some y) \<Rightarrow> x = y | _ \<Rightarrow> False)"

text \<open>
  The page's state: the globals \<open>allLocations\<close> and \<open>selectedYear\<close> (\<open>null\<close> is
  \<open>None\<close>), the markers held by the layer group \<open>markers\<close>, and the text of the
  upload status element.
\<close>

datatype upload_status = InitialStatus | Parsing | Loaded nat | ErrorParsingJSON

record app_state =
  allLocations :: "location list"
  markers :: "location list"
  selectedYear :: "jsstring option"
  statusText :: upload_status

text \<open>
  What the page takes from the browser and from Leaflet, neither of which is among the
  sources; both are parameters.
  \<^item> \<open>getFullYear v\<close> is the result of \<open>new Date(v).getFullYear()\<close> where \<open>new Date(v)\<close>
    does not throw: the calendar year of \<open>v\<close> in the browser's time zone, \<open>None\<close>
    (NaN) when \<open>v\<close> is no date.
  \<^item> \<open>fitBounds_throws locs\<close> says whether lines 107-113 (\<open>L.latLngBounds\<close>,
    \<open>bounds.extend\<close> for each location, \<open>map.fitBounds\<close>) throw.
  \<^item> \<open>marker_throws loc\<close> says whether lines 119-127 (\<open>L.divIcon\<close>, \<open>L.marker\<close>,
    \<open>bindPopup\<close>, \<open>markers.addLayer\<close>) throw for a location.
\<close>

record browser =
  getFullYear :: "jsval \<Rightarrow> int option"
  fitBounds_throws :: "location list \<Rightarrow> bool"
  marker_throws :: "location \<Rightarrow> bool"

text \<open>
  \<open>new Date(v).getFullYear()\<close>: the constructor converts an object to a primitive
  first, which may throw.
\<close>

definition new_Date_getFullYear :: "browser \<Rightarrow> jsval \<Rightarrow> js_error + int option" where
  "new_Date_getFullYear env v =
     (if toString_throws v then Inl TypeError else Inr (getFullYear env v))"

text \<open>
  \<open>allLocations.filter(loc => ...)\<close> of lines 94-98, with \<open>yearInt\<close> already parsed:
  the callback runs on each location in turn and the first throw ends the filter.
\<close>

fun filter_by_year :: "browser \<Rightarrow> int option \<Rightarrow> location list \<Rightarrow> js_error + location list" where
  "filter_by_year env yearInt [] = Inr []"
| "filter_by_year env yearInt (loc # locs) =
     (if \<not> truthy (startTime loc) then filter_by_year env yearInt locs
      else
        bnd (new_Date_getFullYear env (startTime loc)) (\<lambda>visitYear.
        bnd (filter_by_year env yearInt locs) (\<lambda>rest.
          Inr (if strictEquals visitYear yearInt then loc # rest else rest))))"

text \<open>
  \<open>buildPopupContent(location)\<close> (lines 204-225). The text it builds is not modelled,
  only whether building it throws: the template literals convert a truthy \<open>name\<close> and
  a truthy \<open>address\<close> to strings, and a truthy \<open>startTime\<close> goes through
  \<open>new Date\<close>. \<open>toLocaleDateString\<close> and \<open>toFixed\<close> return a string for every date
  and every number.
\<close>

definition template_literal :: "jsval \<Rightarrow> js_error + unit" where
  "template_literal v = (if toString_throws v then Inl TypeError else Inr ())"

definition new_Date :: "jsval \<Rightarrow> js_error + unit" where
  "new_Date v = (if toString_throws v then Inl TypeError else Inr ())"

definition buildPopupContent :: "location \<Rightarrow> js_error + unit" where
  "buildPopupContent location =
     bnd (if truthy (name location) then template_literal (name location) else Inr ()) (\<lambda>_.
     bnd (if truthy (address location) then template_literal (address location) else Inr ()) (\<lambda>_.
     bnd (if truthy (startTime location) then new_Date (startTime location) else Inr ()) (\<lambda>_.
       Inr ())))"

text \<open>
  \<open>filteredLocations.forEach(loc => ...)\<close> of lines 116-128, on the growing layer: the
  popup is built, then the marker is made and added. A throw ends the loop; the markers
  added before it stay in the layer.
\<close>

fun addMarkers :: "browser \<Rightarrow> location list \<Rightarrow> location list \<Rightarrow> js_error option \<times> location list" where
  "addMarkers env [] layer = (None, layer)"
| "addMarkers env (loc # locs) layer =
     (case buildPopupContent loc of
        Inl e \<Rightarrow> (Some e, layer)
      | Inr _ \<Rightarrow>
          if marker_throws env loc then (Some LeafletError, layer)
          else addMarkers env locs (layer @ [loc]))"

text \<open>
  \<open>renderMarkers\<close> (lines 81-131) returns what it throws, if anything, and the state it
  leaves: the layer is cleared first; with no location it returns; a selected year
  filters; with nothing left it returns; then the map is fitted and the markers are
  added.
\<close>

definition renderMarkers :: "browser \<Rightarrow> app_state \<Rightarrow> js_error option \<times> app_state" where
  "renderMarkers env st =
     (let st1 = st\<lparr>markers := []\<rparr> in
      if allLocations st1 = [] then (None, st1)
      else
        (case (case selectedYear st1 of
                 None \<Rightarrow> Inr (allLocations st1)
               | Some y \<Rightarrow>
                   if y = [] then Inr (allLocations st1)
                   else filter_by_year env (parseInt y) (allLocations st1)) of
           Inl e \<Rightarrow> (Some e, st1)
         | Inr filteredLocations \<Rightarrow>
             if filteredLocations = [] then (None, st1)
             else if fitBounds_throws env filteredLocations then (Some LeafletError, st1)
             else
               (case addMarkers env filteredLocations (markers st1) of
                  (e, layer) \<Rightarrow> (e, st1\<lparr>markers := layer\<rparr>))))"

section \<open>processTimelineData and handleFileUpload\<close>

text \<open>
  \<open>processTimelineData(data)\<close> (lines 160-194) returns what it throws, if anything, and
  the state it leaves. \<open>segments.forEach\<close> is a function only when \<open>segments\<close> is an
  array. The final \<open>initializeYearFilter()\<close> only appends options to the year dropdown.
\<close>

definition processTimelineData ::
  "browser \<Rightarrow> jsval \<Rightarrow> app_state \<Rightarrow> js_error option \<times> app_state" where
  "processTimelineData env data st =
     (let st1 = st\<lparr>allLocations := []\<rparr> in
      case get data k_semanticSegments of
        Inl e \<Rightarrow> (Some e, st1)
      | Inr v \<Rightarrow>
          (case (if truthy v then v else JArr []) of
             JArr segments \<Rightarrow>
               (case forEach segments (allLocations st1) of
                  (Some e, locs) \<Rightarrow> (Some e, st1\<lparr>allLocations := locs\<rparr>)
                | (None, locs) \<Rightarrow> renderMarkers env (st1\<lparr>allLocations := locs\<rparr>))
           | _ \<Rightarrow> (Some TypeError, st1)))"

text \<open>
  The change event of the file input: no file chosen, or a file, given by what
  \<open>JSON.parse\<close> makes of its text (\<open>None\<close> when \<open>JSON.parse\<close> throws a SyntaxError).
\<close>

datatype file_event = NoFile | FileText "jsval option"

text \<open>
  \<open>handleFileUpload\<close> (lines 134-157), with the \<open>onload\<close> handler run: the \<open>try\<close>
  block parses and processes, the \<open>catch\<close> block writes the error status for whatever
  was thrown.
\<close>

definition handleFileUpload :: "browser \<Rightarrow> file_event \<Rightarrow> app_state \<Rightarrow> app_state" where
  "handleFileUpload env ev st =
     (case ev of
        NoFile \<Rightarrow> st
      | FileText parsed \<Rightarrow>
          (let st1 = st\<lparr>statusText := Parsing\<rparr> in
           case parsed of
             None \<Rightarrow> st1\<lparr>statusText := ErrorParsingJSON\<rparr>
           | Some json \<Rightarrow>
               (case processTimelineData env json st1 of
                  (Some e, st2) \<Rightarrow> st2\<lparr>statusText := ErrorParsingJSON\<rparr>
                | (None, st2) \<Rightarrow> st2\<lparr>statusText := Loaded (length (allLocations st2))\<rparr>)))"


section \<open>What a segment contributes, stated on its own\<close>

text \<open>The read \<open>v.k\<close> where it cannot throw.\<close>

definition property :: "jsval \<Rightarrow> jsstring \<Rightarrow> jsval" where
  "property v k = (case get v k of Inl e \<Rightarrow> JUndefined | Inr x \<Rightarrow> x)"

text \<open>
  The field chain \<open>segment.visit.topCandidate.placeLocation.latLng\<close>: \<open>undefined\<close>
  as soon as a link is falsy.
\<close>

definition placeLocation_of :: "jsval \<Rightarrow> jsval" where
  "placeLocation_of segment =
     (let visit = property segment k_visit in
      if \<not> truthy visit then JUndefined
      else (let topCandidate = property visit k_topCandidate in
            if \<not> truthy topCandidate then JUndefined
            else property topCandidate k_placeLocation))"

definition latLng_field :: "jsval \<Rightarrow> jsval" where
  "latLng_field segment =
     (let placeLocation = placeLocation_of segment in
      if \<not> truthy placeLocation then JUndefined else property placeLocation k_latLng)"

text \<open>
  A coordinate string parses when, degree signs removed, it splits at commas into
  exactly two parts and \<open>parseFloat\<close> of each trimmed part is not NaN.
\<close>

definition parse_latLng :: "jsstring \<Rightarrow> (number \<times> number) option" where
  "parse_latLng s =
     (case split_comma (replace_degree s) of
        [a, b] \<Rightarrow>
          (let la = parseFloat (trim a); lo = parseFloat (trim b) in
           if la = NaN \<or> lo = NaN then None else Some (la, lo))
      | _ \<Rightarrow> None)"

definition location_of :: "jsval \<Rightarrow> number \<Rightarrow> number \<Rightarrow> location" where
  "location_of segment la lo =
     \<lparr> lat = la, lng = lo,
       startTime = property segment k_startTime,
       address = property (placeLocation_of segment) k_address,
       name = property (placeLocation_of segment) k_name,
       probability = property (property segment k_visit) k_probability \<rparr>"

text \<open>The location a segment yields, if it yields one.\<close>

definition segment_location :: "jsval \<Rightarrow> location option" where
  "segment_location segment =
     (case latLng_field segment of
        JStr s \<Rightarrow> map_option (\<lambda>(la, lo). location_of segment la lo) (parse_latLng s)
      | _ \<Rightarrow> None)"

text \<open>
  The segments on which the callback throws: \<open>null\<close> (and \<open>undefined\<close>), whose
  \<open>visit\<close> cannot be read, and a segment whose \<open>latLng\<close> is truthy but no string.
\<close>

definition segment_throws :: "jsval \<Rightarrow> bool" where
  "segment_throws segment =
     (segment = JNull \<or> segment = JUndefined \<or>
      (case latLng_field segment of JStr s \<Rightarrow> False | v \<Rightarrow> truthy v))"

text \<open>The array \<open>data.semanticSegments || []\<close> where it is one; empty otherwise.\<close>

definition segments_of :: "jsval \<Rightarrow> jsval list" where
  "segments_of data =
     (case property data k_semanticSegments of JArr segments \<Rightarrow> segments | _ \<Rightarrow> [])"

text \<open>The inputs on which \<open>processTimelineData\<close> throws.\<close>

definition export_throws :: "jsval \<Rightarrow> bool" where
  "export_throws data =
     (data = JNull \<or> data = JUndefined \<or>
      (case property data k_semanticSegments of
         JArr segments \<Rightarrow> list_ex segment_throws segments
       | v \<Rightarrow> truthy v))"

text \<open>
  The visits of an export: the locations of its segments, in the order of the array,
  up to the first segment on which the callback throws.
\<close>

definition locations_of :: "jsval \<Rightarrow> location list" where
  "locations_of data =
     List.map_filter segment_location (takeWhile (\<lambda>s. \<not> segment_throws s) (segments_of data))"

section \<open>What is drawn, stated on its own\<close>

text \<open>A year is selected when \<open>selectedYear\<close> is a non-empty string.\<close>

definition year_selected :: "jsstring option \<Rightarrow> bool" where
  "year_selected year = (case year of None \<Rightarrow> False | Some y \<Rightarrow> y \<noteq> [])"

text \<open>
  The locations the year filter keeps: all of them with no year selected, else those
  with a truthy \<open>startTime\<close> whose year is the selected one.
\<close>

definition filteredLocations :: "browser \<Rightarrow> jsstring option \<Rightarrow> location list \<Rightarrow> location list" where
  "filteredLocations env year locs =
     (case year of
        None \<Rightarrow> locs
      | Some y \<Rightarrow>
          if y = [] then locs
          else filter (\<lambda>loc. truthy (startTime loc) \<and>
                 strictEquals (getFullYear env (startTime loc)) (parseInt y)) locs)"

text \<open>The filter throws when a year is selected and \<open>new Date\<close> throws on some
  \<open>startTime\<close>.\<close>

definition filter_throws :: "jsstring option \<Rightarrow> location list \<Rightarrow> bool" where
  "filter_throws year locs \<longleftrightarrow>
     year_selected year \<and> list_ex (\<lambda>loc. toString_throws (startTime loc)) locs"

text \<open>Drawing a location throws when its popup text cannot be built or Leaflet refuses
  the marker.\<close>

definition popup_throws :: "location \<Rightarrow> bool" where
  "popup_throws loc \<longleftrightarrow>
     toString_throws (name loc) \<or> toString_throws (address loc) \<or>
     toString_throws (startTime loc)"

definition draw_throws :: "browser \<Rightarrow> location \<Rightarrow> bool" where
  "draw_throws env loc \<longleftrightarrow> popup_throws loc \<or> marker_throws env loc"

text \<open>The cases in which \<open>renderMarkers\<close> throws, and the markers it leaves in the
  layer in every case.\<close>

definition render_throws :: "browser \<Rightarrow> jsstring option \<Rightarrow> location list \<Rightarrow> bool" where
  "render_throws env year locs \<longleftrightarrow>
     filter_throws year locs \<or>
     (filteredLocations env year locs \<noteq> [] \<and>
      (fitBounds_throws env (filteredLocations env year locs) \<or>
       list_ex (draw_throws env) (filteredLocations env year locs)))"

definition drawn :: "browser \<Rightarrow> jsstring option \<Rightarrow> location list \<Rightarrow> location list" where
  "drawn env year locs =
     (if filter_throws year locs then []
      else if fitBounds_throws env (filteredLocations env year locs) then []
      else takeWhile (\<lambda>loc. \<not> draw_throws env loc) (filteredLocations env year locs))"


section \<open>Concrete exports\<close>

text \<open>The page before any upload.\<close>

definition initial_state :: app_state where
  "initial_state = \<lparr> allLocations = [], markers = [], selectedYear = None,
                     statusText = InitialStatus \<rparr>"

text \<open>The coordinate string of an export: \<open>"<lat>\<degree>, <lng>\<degree>"\<close>.\<close>

definition latLng_string :: "string \<Rightarrow> string \<Rightarrow> jsstring" where
  "latLng_string la lo = str la @ [176] @ str '', '' @ str lo @ [176]"

text \<open>
  A segment \<open>{"startTime": t, "visit": {"topCandidate": {"placeLocation":
  {"latLng": c}}}}\<close> and the export \<open>{"semanticSegments": [...]}\<close>. With
  \<open>t = JUndefined\<close> the segment reads as one without \<open>startTime\<close>.
\<close>

definition visit_segment :: "jsval \<Rightarrow> jsval \<Rightarrow> jsval" where
  "visit_segment c t =
     JObj [(k_startTime, t),
           (k_visit, JObj [(k_topCandidate, JObj [(k_placeLocation, JObj [(k_latLng, c)])])])]"

text \<open>A segment with no \<open>startTime\<close> whose place carries the name \<open>n\<close>.\<close>

definition named_segment :: "jsval \<Rightarrow> jsval \<Rightarrow> jsval" where
  "named_segment c n =
     JObj [(k_visit,
            JObj [(k_topCandidate, JObj [(k_placeLocation, JObj [(k_latLng, c), (k_name, n)])])])]"

definition export_of :: "jsval list \<Rightarrow> jsval" where
  "export_of segments = JObj [(k_semanticSegments, JArr segments)]"

text \<open>
  A date reader for the examples: the year of an ISO 8601 time stamp, read from its
  first four characters; no date when they are not digits.
\<close>

definition iso_year :: "jsval \<Rightarrow> int option" where
  "iso_year v =
     (case v of
        JStr s \<Rightarrow>
          if length (takeWhile isDigit (take 4 s)) = 4 then Some (int (digitsValue (take 4 s)))
          else None
      | _ \<Rightarrow> None)"

text \<open>
  A browser for the examples: dates are read by \<open>iso_year\<close> and Leaflet accepts every
  location.
\<close>

definition plain_browser :: browser where
  "plain_browser =
     \<lparr> getFullYear = iso_year, fitBounds_throws = (\<lambda>locs. False),
       marker_throws = (\<lambda>loc. False) \<rparr>"



section \<open>Geometry kernel, place deduplicator and stats aggregator\<close>

text \<open>
  The README places distance, deduplication and statistics in \<open>timeline-utils.js\<close>,
  which is not among the source files. The definitions of this section follow the
  words of the specification instead.
\<close>

subsection \<open>Geometry kernel\<close>

text \<open>A coordinate is a pair (latitude, longitude) in degrees.\<close>

type_synonym coordinate = "real \<times> real"

text \<open>
  Modelled from the spec: the Geometry Kernel's \<open>distance\<close> (absent from the
  sources), "great-circle (haversine) distance" with "a fixed Earth radius constant".
  The spec fixes no value; the mean radius in metres is used.
\<close>

definition earthRadius :: real where
  "earthRadius = 6371000"

definition toRadians :: "real \<Rightarrow> real" where
  "toRadians d = d * pi / 180"

definition haversine :: "coordinate \<Rightarrow> coordinate \<Rightarrow> real" where
  "haversine a b =
     (sin ((toRadians (fst b) - toRadians (fst a)) / 2)) ^ 2 +
     cos (toRadians (fst a)) * cos (toRadians (fst b)) *
       (sin ((toRadians (snd b) - toRadians (snd a)) / 2)) ^ 2"

definition distance :: "coordinate \<Rightarrow> coordinate \<Rightarrow> real" where
  "distance a b = 2 * earthRadius * arcsin (sqrt (haversine a b))"

subsection \<open>The canonical model\<close>

text \<open>
  Modelled from the spec: the records Visit, MovementSegment, Place and StatsBundle of
  its data model (no source file declares them). Times are milliseconds; \<open>None\<close> is
  \<open>null\<close>.
\<close>

record visit =
  coordinate :: coordinate
  v_startTime :: "int option"
  v_endTime :: "int option"
  v_probability :: real
  placeName :: "string option"
  v_address :: "string option"
  sourcePlaceId :: "string option"

record movement =
  m_startTime :: "int option"
  m_endTime :: "int option"
  distanceMeters :: real
  mode :: "string option"

record place =
  representativeCoordinate :: coordinate
  visits :: "visit list"
  country :: "string option"
  visitCount :: nat

record stats_bundle =
  totalDistance :: real
  uniquePlaces :: nat
  uniqueCountries :: nat
  movingDuration :: int
  stationaryDuration :: int
  carbonEstimate :: real
  longestMovement :: "movement option"
  mostVisitedPlace :: "place option"

subsection \<open>Place deduplicator\<close>

text \<open>
  Modelled from the spec: the merge rule of \<open>dedupe\<close> (absent from the sources). "Two
  visits merge into the same Place if either (a) they share a non-null
  \<open>sourcePlaceId\<close>, or (b) their coordinates are within a fixed proximity threshold
  and no \<open>sourcePlaceId\<close> conflict exists." A conflict is read as two different
  non-null identifiers.
\<close>

definition sameSourcePlace :: "visit \<Rightarrow> visit \<Rightarrow> bool" where
  "sameSourcePlace a b \<longleftrightarrow> sourcePlaceId a \<noteq> None \<and> sourcePlaceId a = sourcePlaceId b"

definition idConflict :: "visit \<Rightarrow> visit \<Rightarrow> bool" where
  "idConflict a b \<longleftrightarrow>
     sourcePlaceId a \<noteq> None \<and> sourcePlaceId b \<noteq> None \<and> sourcePlaceId a \<noteq> sourcePlaceId b"

definition merges :: "real \<Rightarrow> visit \<Rightarrow> visit \<Rightarrow> bool" where
  "merges threshold a b \<longleftrightarrow>
     sameSourcePlace a b \<or>
     (distance (coordinate a) (coordinate b) \<le> threshold \<and> \<not> idConflict a b)"

text \<open>
  Modelled from the spec: "merging is transitive through direct pairwise distance
  only -- a single-linkage clustering over the proximity graph". \<open>component\<close> grows a
  cluster \<open>c\<close> by the visits of \<open>vs\<close> that merge with one of its members, until
  none is left.
\<close>

function component :: "real \<Rightarrow> visit list \<Rightarrow> visit list \<Rightarrow> visit list" where
  "component threshold vs c =
     (let new = filter (\<lambda>u. u \<notin> set c \<and> list_ex (\<lambda>w. merges threshold w u) c) vs in
      if new = [] then c else component threshold vs (c @ new))"
  by pat_completeness auto
termination
proof (relation "measure (\<lambda>(threshold, vs, c). card (set vs - set c))")
  fix threshold :: real and vs c new :: "visit list"
  assume new: "new = filter (\<lambda>u. u \<notin> set c \<and> list_ex (\<lambda>w. merges threshold w u) c) vs"
    and ne: "new \<noteq> []"
  from ne obtain u where u: "u \<in> set new"
    by (cases new) auto
  with new have "u \<in> set vs - set c" "u \<notin> set vs - set (c @ new)"
    by auto
  then have "set vs - set (c @ new) \<subset> set vs - set c"
    by auto
  then have "card (set vs - set (c @ new)) < card (set vs - set c)"
    by (intro psubset_card_mono) auto
  then show "((threshold, vs, c @ new), (threshold, vs, c))
      \<in> measure (\<lambda>(threshold, vs, c). card (set vs - set c))"
    by simp
qed simp

declare component.simps [simp del]

text \<open>
  Modelled from the spec: Places come "in a stable order (first-appearance order of
  the founding Visit)": the first visit not yet placed founds the next cluster, which
  takes every visit of its component, in input order.
\<close>

function clusters :: "real \<Rightarrow> visit list \<Rightarrow> visit list list" where
  "clusters threshold [] = []"
| "clusters threshold (v # rest) =
     (let c = component threshold (v # rest) [v] in
      filter (\<lambda>u. u \<in> set c) (v # rest) #
      clusters threshold (filter (\<lambda>u. u \<notin> set c) rest))"
  by pat_completeness auto
termination
  by (relation "measure (\<lambda>(threshold, vs). length vs)") (auto simp: less_Suc_eq_le)

text \<open>
  Modelled from the spec: "A Place's \<open>representativeCoordinate\<close> is the arithmetic
  mean of its member Visits' coordinates"; \<open>visitCount\<close> counts the members. The
  country is left to the aggregator ("no country resolution").
\<close>

definition centroid :: "visit list \<Rightarrow> coordinate" where
  "centroid members =
     (sum_list (map (\<lambda>v. fst (coordinate v)) members) / real (length members),
      sum_list (map (\<lambda>v. snd (coordinate v)) members) / real (length members))"

definition place_of :: "visit list \<Rightarrow> place" where
  "place_of members =
     \<lparr> representativeCoordinate = centroid members, visits = members, country = None,
       visitCount = length members \<rparr>"

text \<open>Modelled from the spec: \<open>dedupe(visits)\<close>, with its configurable radius.\<close>

definition dedupe :: "real \<Rightarrow> visit list \<Rightarrow> place list" where
  "dedupe threshold vs = map place_of (clusters threshold vs)"

subsection \<open>Stats aggregator\<close>

text \<open>
  Modelled from the spec: \<open>aggregate\<close> (absent from the sources). Total distance is
  the sum of the movements' distances; unique places is the number of places; unique
  countries counts the distinct non-null results of the resolver on the places'
  representative coordinates; durations sum over the records with both times; the
  carbon estimate is the total distance times one emissions factor; records are found
  by a linear scan in which the earliest wins a tie. The spec gives the emissions
  factor no value and the resolver belongs to the Country Resolver: both are
  parameters.
\<close>

definition durationOf :: "int option \<Rightarrow> int option \<Rightarrow> int" where
  "durationOf s e = (case (s, e) of (Some a, Some b) \<Rightarrow> b - a | _ \<Rightarrow> 0)"

fun firstMax :: "('a \<Rightarrow> 'b::linorder) \<Rightarrow> 'a list \<Rightarrow> 'a option" where
  "firstMax f [] = None"
| "firstMax f (x # xs) =
     (case firstMax f xs of
        None \<Rightarrow> Some x
      | Some y \<Rightarrow> if f x < f y then Some y else Some x)"

definition aggregate ::
  "real \<Rightarrow> (coordinate \<Rightarrow> string option) \<Rightarrow> visit list \<Rightarrow> movement list \<Rightarrow> place list
     \<Rightarrow> stats_bundle" where
  "aggregate emissionsFactor resolve vs ms ps =
     \<lparr> totalDistance = sum_list (map distanceMeters ms),
       uniquePlaces = length ps,
       uniqueCountries =
         length (remdups (List.map_filter (\<lambda>p. resolve (representativeCoordinate p)) ps)),
       movingDuration = sum_list (map (\<lambda>m. durationOf (m_startTime m) (m_endTime m)) ms),
       stationaryDuration = sum_list (map (\<lambda>v. durationOf (v_startTime v) (v_endTime v)) vs),
       carbonEstimate = sum_list (map distanceMeters ms) * emissionsFactor,
       longestMovement = firstMax distanceMeters ms,
       mostVisitedPlace = firstMax visitCount ps \<rparr>"

text \<open>Visits for the examples: a coordinate and an identifier, nothing else known.\<close>

definition visit_at :: "coordinate \<Rightarrow> string option \<Rightarrow> visit" where
  "visit_at c i =
     \<lparr> coordinate = c, v_startTime = None, v_endTime = None, v_probability = 1,
       placeName = None, v_address = None, sourcePlaceId = i \<rparr>"


section \<open>The loop, characterised\<close>

lemma get_property: "v \<noteq> JNull \<Longrightarrow> v \<noteq> JUndefined \<Longrightarrow> get v k = Inr (property v k)"
  by (cases v) (simp_all add: property_def)

lemma bnd_get_truthy: "truthy v \<Longrightarrow> bnd (get v k) f = f (property v k)"
  by (cases v) (simp_all add: property_def bnd_def)

lemma bnd_get_segment:
  "segment \<noteq> JNull \<Longrightarrow> segment \<noteq> JUndefined \<Longrightarrow> bnd (get segment k) f = f (property segment k)"
  by (simp add: get_property bnd_def)

lemma length_two: "length ps = 2 \<longleftrightarrow> (\<exists>a b. ps = [a, b])"
  by (cases ps; cases "tl ps") auto

lemma parse_latLng_parts:
  "parse_latLng s =
     (let parts = split_comma (replace_degree s) in
      if length parts = 2 then
        (let la = parseFloat (trim (parts ! 0)); lo = parseFloat (trim (parts ! 1)) in
         if \<not> isNaN la \<and> \<not> isNaN lo then Some (la, lo) else None)
      else None)"
proof (cases "length (split_comma (replace_degree s)) = 2")
  case True
  then obtain a b where "split_comma (replace_degree s) = [a, b]"
    by (auto simp: length_two)
  then show ?thesis
    by (simp add: parse_latLng_def Let_def isNaN_def)
next
  case False
  then have "\<And>a b. split_comma (replace_degree s) \<noteq> [a, b]"
    by (auto simp: length_two)
  with False show ?thesis
    by (simp add: parse_latLng_def Let_def split: list.splits)
qed

lemma parse_latLng_empty: "parse_latLng [] = None"
  by (simp add: parse_latLng_def replace_degree_def)

lemma forEach_callback_null:
  "segment = JNull \<or> segment = JUndefined \<Longrightarrow> forEach_callback segment locs = Inl TypeError"
  by (auto simp: forEach_callback_def bnd_def)

lemma forEach_callback_no_place:
  assumes "segment \<noteq> JNull" "segment \<noteq> JUndefined" "\<not> truthy (placeLocation_of segment)"
  shows "forEach_callback segment locs = Inr locs"
  using assms
  by (simp add: forEach_callback_def bnd_get_segment bnd_get_truthy placeLocation_of_def Let_def
      split: if_splits)

lemma forEach_callback_place:
  assumes "segment \<noteq> JNull" "segment \<noteq> JUndefined" "truthy (placeLocation_of segment)"
  shows "forEach_callback segment locs =
     (if \<not> truthy (latLng_field segment) then Inr locs
      else (case latLng_field segment of
              JStr s \<Rightarrow> (case parse_latLng s of None \<Rightarrow> Inr locs
                 | Some (la, lo) \<Rightarrow> Inr (locs @ [location_of segment la lo]))
            | _ \<Rightarrow> Inl TypeError))"
proof -
  from assms(3) have v: "truthy (property segment k_visit)"
    and t: "truthy (property (property segment k_visit) k_topCandidate)"
    and p: "truthy (property (property (property segment k_visit) k_topCandidate) k_placeLocation)"
    and pl: "placeLocation_of segment = property (property (property segment k_visit) k_topCandidate) k_placeLocation"
    by (auto simp: placeLocation_of_def Let_def split: if_splits)
  show ?thesis
    unfolding forEach_callback_def
    by (simp add: bnd_get_segment[OF assms(1,2)] bnd_get_truthy v t p latLng_field_def pl
        parse_latLng_parts location_of_def Let_def split: jsval.splits)
qed

lemma forEach_callback_eq:
  "forEach_callback segment locs =
     (if segment_throws segment then Inl TypeError
      else Inr (locs @ (case segment_location segment of None \<Rightarrow> [] | Some l \<Rightarrow> [l])))"
proof (cases "segment = JNull \<or> segment = JUndefined")
  case True
  then show ?thesis
    by (auto simp: forEach_callback_null segment_throws_def)
next
  case False
  show ?thesis
  proof (cases "truthy (placeLocation_of segment)")
    case no: False
    with False show ?thesis
      by (simp add: forEach_callback_no_place segment_throws_def segment_location_def latLng_field_def)
  next
    case True
    with False show ?thesis
      by (auto simp add: forEach_callback_place segment_throws_def segment_location_def
          parse_latLng_empty split: jsval.splits option.splits)
  qed
qed

lemma forEach_eq:
  "forEach segments locs =
     (if list_ex segment_throws segments then Some TypeError else None,
      locs @ List.map_filter segment_location (takeWhile (\<lambda>s. \<not> segment_throws s) segments))"
proof (induction segments arbitrary: locs)
  case Nil
  show ?case by (simp add: List.map_filter_simps)
next
  case (Cons s ss)
  show ?case
    by (cases "segment_location s") (simp_all add: forEach_callback_eq Cons List.map_filter_simps)
qed

section \<open>Rendering, characterised\<close>

lemma toString_throws_truthy: "toString_throws v \<Longrightarrow> truthy v"
  by (cases v) simp_all

lemma filter_by_year_eq:
  "filter_by_year env yearInt locs =
     (if list_ex (\<lambda>loc. toString_throws (startTime loc)) locs then Inl TypeError
      else Inr (filter (\<lambda>loc. truthy (startTime loc) \<and>
                  strictEquals (getFullYear env (startTime loc)) yearInt) locs))"
proof (induction locs)
  case Nil
  show ?case by simp
next
  case (Cons loc locs)
  show ?case
  proof (cases "toString_throws (startTime loc)")
    case True
    then show ?thesis
      by (simp add: toString_throws_truthy new_Date_getFullYear_def bnd_def)
  next
    case False
    then show ?thesis
      by (simp add: Cons new_Date_getFullYear_def bnd_def)
  qed
qed

lemma buildPopupContent_eq:
  "buildPopupContent loc = (if popup_throws loc then Inl TypeError else Inr ())"
  by (auto simp: buildPopupContent_def popup_throws_def template_literal_def new_Date_def
      bnd_def dest: toString_throws_truthy)

lemma addMarkers_snd:
  "snd (addMarkers env locs layer) = layer @ takeWhile (\<lambda>loc. \<not> draw_throws env loc) locs"
  by (induction locs arbitrary: layer) (simp_all add: buildPopupContent_eq draw_throws_def)

lemma addMarkers_fst:
  "fst (addMarkers env locs layer) = None \<longleftrightarrow> \<not> list_ex (draw_throws env) locs"
  by (induction locs arbitrary: layer) (simp_all add: buildPopupContent_eq draw_throws_def)

lemma filtered_case:
  "(case year of None \<Rightarrow> Inr locs
    | Some y \<Rightarrow> if y = [] then Inr locs else filter_by_year env (parseInt y) locs) =
   (if filter_throws year locs then Inl TypeError else Inr (filteredLocations env year locs))"
  by (cases year)
     (simp_all add: filter_throws_def year_selected_def filteredLocations_def filter_by_year_eq)

lemma renderMarkers_snd:
  "snd (renderMarkers env st) = st\<lparr>markers := drawn env (selectedYear st) (allLocations st)\<rparr>"
proof (cases "allLocations st = []")
  case True
  then have "drawn env (selectedYear st) (allLocations st) = []"
    by (cases "selectedYear st") (simp_all add: drawn_def filter_throws_def filteredLocations_def)
  with True show ?thesis
    by (simp add: renderMarkers_def)
next
  case False
  then show ?thesis
    by (simp add: renderMarkers_def Let_def filtered_case drawn_def split_beta addMarkers_snd)
qed

lemma renderMarkers_fst:
  "fst (renderMarkers env st) = None \<longleftrightarrow>
     \<not> render_throws env (selectedYear st) (allLocations st)"
proof (cases "allLocations st = []")
  case True
  then have "\<not> render_throws env (selectedYear st) (allLocations st)"
    by (cases "selectedYear st") (simp_all add: render_throws_def filter_throws_def filteredLocations_def)
  with True show ?thesis
    by (simp add: renderMarkers_def)
next
  case False
  then show ?thesis
    by (simp add: renderMarkers_def Let_def filtered_case render_throws_def split_beta
        addMarkers_fst)
qed

lemma processTimelineData_throws:
  "export_throws data \<Longrightarrow>
     processTimelineData env data st = (Some TypeError, st\<lparr>allLocations := locations_of data\<rparr>)"
proof (cases "data = JNull \<or> data = JUndefined")
  case True
  then show ?thesis
    by (auto simp: processTimelineData_def locations_of_def segments_of_def
        property_def List.map_filter_simps)
next
  case False
  assume t: "export_throws data"
  from False have g: "get data k_semanticSegments = Inr (property data k_semanticSegments)"
    by (simp add: get_property)
  show ?thesis
  proof (cases "property data k_semanticSegments")
    case (JArr segs)
    with False g t show ?thesis
      by (simp add: processTimelineData_def export_throws_def locations_of_def segments_of_def
        forEach_eq)
  qed (use False g t in \<open>simp_all add: processTimelineData_def export_throws_def locations_of_def
        segments_of_def List.map_filter_simps\<close>)
qed

lemma processTimelineData_renders:
  "\<not> export_throws data \<Longrightarrow>
     processTimelineData env data st = renderMarkers env (st\<lparr>allLocations := locations_of data\<rparr>)"
proof (cases "data = JNull \<or> data = JUndefined")
  case True
  assume "\<not> export_throws data"
  with True show ?thesis by (auto simp: export_throws_def)
next
  case False
  assume t: "\<not> export_throws data"
  from False have g: "get data k_semanticSegments = Inr (property data k_semanticSegments)"
    by (simp add: get_property)
  show ?thesis
  proof (cases "property data k_semanticSegments")
    case (JArr segs)
    with False g t show ?thesis
      by (simp add: processTimelineData_def export_throws_def locations_of_def segments_of_def
        forEach_eq)
  qed (use False g t in \<open>auto simp add: processTimelineData_def export_throws_def locations_of_def
        segments_of_def forEach_eq List.map_filter_simps\<close>)
qed

lemma processTimelineData_allLocations:
  "allLocations (snd (processTimelineData env data st)) = locations_of data"
  by (cases "export_throws data")
     (simp_all add: processTimelineData_throws processTimelineData_renders renderMarkers_snd)

lemma processTimelineData_snd:
  "snd (processTimelineData env data st) =
     (if export_throws data then st\<lparr>allLocations := locations_of data\<rparr>
      else st\<lparr>allLocations := locations_of data,
              markers := drawn env (selectedYear st) (locations_of data)\<rparr>)"
  by (simp add: processTimelineData_throws processTimelineData_renders renderMarkers_snd)

lemma processTimelineData_fst:
  "fst (processTimelineData env data st) = None \<longleftrightarrow>
     \<not> export_throws data \<and> \<not> render_throws env (selectedYear st) (locations_of data)"
  by (cases "export_throws data")
     (simp_all add: processTimelineData_throws processTimelineData_renders renderMarkers_fst)

section \<open>Evaluating concrete exports\<close>

lemmas key_defs = k_semanticSegments_def k_visit_def k_topCandidate_def k_placeLocation_def
  k_latLng_def k_startTime_def k_address_def k_name_def k_probability_def str_def

lemmas parse_defs = parse_latLng_def replace_degree_def parseFloat_def signOf_def trimStart_def
  trim_def isStrWhiteSpaceChar_def isDigit_def digitsValue_def exponentOf_def pow10_def
  latLng_string_def

lemma latLng_field_visit_segment: "latLng_field (visit_segment c t) = c"
  by (cases c) (simp_all add: latLng_field_def placeLocation_of_def visit_segment_def property_def key_defs)

lemma placeLocation_of_visit_segment:
  "placeLocation_of (visit_segment c t) = JObj [(k_latLng, c)]"
  by (simp add: placeLocation_of_def visit_segment_def property_def key_defs)

lemma location_of_visit_segment:
  "location_of (visit_segment c t) la lo =
     \<lparr> lat = la, lng = lo, startTime = t, address = JUndefined, name = JUndefined,
       probability = JUndefined \<rparr>"
  by (simp add: location_of_def placeLocation_of_visit_segment)
     (simp add: visit_segment_def property_def key_defs)

lemma segment_location_visit_segment:
  "segment_location (visit_segment (JStr s) t) =
     map_option (\<lambda>(la, lo). \<lparr> lat = la, lng = lo, startTime = t, address = JUndefined,
        name = JUndefined, probability = JUndefined \<rparr>) (parse_latLng s)"
  by (cases "parse_latLng s")
     (auto simp: segment_location_def latLng_field_visit_segment location_of_visit_segment)

lemma segment_throws_visit_segment:
  "segment_throws (visit_segment c t) = (case c of JStr s \<Rightarrow> False | v \<Rightarrow> truthy v)"
  by (simp add: segment_throws_def latLng_field_visit_segment) (simp add: visit_segment_def)

lemma segments_of_export_of: "segments_of (export_of segs) = segs"
  by (simp add: segments_of_def export_of_def property_def)

lemma export_throws_export_of: "export_throws (export_of segs) = list_ex segment_throws segs"
  by (simp add: export_throws_def export_of_def property_def)

lemma parse_95_10: "parse_latLng (latLng_string ''95'' ''10'') = Some (Finite 95, Finite 10)"
  by (simp add: parse_defs str_def)

lemma parse_1_2: "parse_latLng (latLng_string ''1'' ''2'') = Some (Finite 1, Finite 2)"
  by (simp add: parse_defs str_def)

lemma parse_3_4: "parse_latLng (latLng_string ''3'' ''4'') = Some (Finite 3, Finite 4)"
  by (simp add: parse_defs str_def)

lemma parse_garbage: "parse_latLng (str ''somewhere'') = None"
  by (simp add: parse_defs str_def)

lemma no_throw_all:
  "\<not> export_throws data \<Longrightarrow> takeWhile (\<lambda>s. \<not> segment_throws s) (segments_of data) = segments_of data"
  by (cases "property data k_semanticSegments")
     (auto simp: export_throws_def segments_of_def list_ex_iff takeWhile_eq_all_conv)

lemma locations_of_no_throw:
  "\<not> export_throws data \<Longrightarrow> locations_of data = List.map_filter segment_location (segments_of data)"
  by (simp add: locations_of_def no_throw_all)


section \<open>Claims about the normalizer\<close>

subsection \<open>Order of the visits\<close>

lemma no_throwing_segment:
  "\<not> list_ex segment_throws segs \<Longrightarrow> takeWhile (\<lambda>s. \<not> segment_throws s) segs = segs"
  by (simp add: list_ex_iff takeWhile_eq_all_conv)

lemma takeWhile_reached:
  "\<not> list_ex segment_throws before \<Longrightarrow> \<not> segment_throws segment \<Longrightarrow>
     takeWhile (\<lambda>s. \<not> segment_throws s) (before @ segment # after) =
       before @ segment # takeWhile (\<lambda>s. \<not> segment_throws s) after"
  by (simp add: list_ex_iff takeWhile_append2)

text \<open>
  Claim C4, as the program has it. Whatever the export, \<open>allLocations\<close> after
  \<open>processTimelineData\<close> holds the records of the qualifying segments in the order of
  the input array, one record for each, up to the first segment on which the callback
  throws (a \<open>null\<close> segment, or one whose \<open>latLng\<close> is truthy but no string); when no
  segment throws, every qualifying segment of the array has its record. Nothing is
  merged: a qualifying segment equal to an earlier one yields a second, equal record.
\<close>

theorem visits_keep_document_order:
  "allLocations (snd (processTimelineData env data st)) =
     List.map_filter segment_location
       (takeWhile (\<lambda>s. \<not> segment_throws s) (segments_of data)) \<and>
   length (allLocations (snd (processTimelineData env data st))) =
     length (filter (\<lambda>s. segment_location s \<noteq> None)
       (takeWhile (\<lambda>s. \<not> segment_throws s) (segments_of data))) \<and>
   (\<not> list_ex segment_throws (segments_of data) \<longrightarrow>
      allLocations (snd (processTimelineData env data st)) =
        List.map_filter segment_location (segments_of data))"
  by (simp add: processTimelineData_allLocations locations_of_def no_throwing_segment
      List.map_filter_def)

theorem visits_keep_document_order_witness:
  "map lat (allLocations (snd (processTimelineData plain_browser (export_of
       [visit_segment (JStr (latLng_string ''3'' ''4'')) JUndefined,
        visit_segment (JStr (str ''somewhere'')) JUndefined,
        visit_segment (JStr (latLng_string ''1'' ''2'')) JUndefined,
        visit_segment (JStr (latLng_string ''3'' ''4'')) JUndefined]) initial_state)))
     = [Finite 3, Finite 1, Finite 3] \<and>
   map lat (allLocations (snd (processTimelineData plain_browser (export_of
       [visit_segment (JStr (latLng_string ''3'' ''4'')) JUndefined,
        JNull,
        visit_segment (JStr (latLng_string ''1'' ''2'')) JUndefined]) initial_state)))
     = [Finite 3]"
proof -
  let ?a = "visit_segment (JStr (latLng_string ''3'' ''4'')) JUndefined"
  let ?s = "visit_segment (JStr (str ''somewhere'')) JUndefined"
  let ?b = "visit_segment (JStr (latLng_string ''1'' ''2'')) JUndefined"
  have n: "\<not> list_ex segment_throws (segments_of (export_of [?a, ?s, ?b, ?a]))"
    by (simp add: segments_of_export_of segment_throws_visit_segment)
  have "allLocations (snd (processTimelineData plain_browser (export_of [?a, ?s, ?b, ?a])
      initial_state)) = List.map_filter segment_location (segments_of (export_of [?a, ?s, ?b, ?a]))"
    using visits_keep_document_order
      [of plain_browser "export_of [?a, ?s, ?b, ?a]" initial_state] n
    by blast
  moreover have "allLocations (snd (processTimelineData plain_browser (export_of [?a, JNull, ?b])
      initial_state)) = List.map_filter segment_location
        (takeWhile (\<lambda>s. \<not> segment_throws s) (segments_of (export_of [?a, JNull, ?b])))"
    using visits_keep_document_order
      [of plain_browser "export_of [?a, JNull, ?b]" initial_state]
    by blast
  ultimately show ?thesis
    by (simp add: segments_of_export_of segment_throws_visit_segment List.map_filter_simps
        segment_location_visit_segment parse_1_2 parse_3_4 parse_garbage)
       (simp add: segment_throws_def)
qed

text \<open>
  Claim C4 as stated fails: after a segment whose \<open>latLng\<close> is \<open>true\<close> the loop has
  ended, and the qualifying segment that follows yields no record.
\<close>

theorem no_record_after_a_throwing_segment:
  "segment_location (visit_segment (JStr (latLng_string ''1'' ''2'')) JUndefined) =
     Some \<lparr> lat = Finite 1, lng = Finite 2, startTime = JUndefined,
            address = JUndefined, name = JUndefined, probability = JUndefined \<rparr> \<and>
   allLocations (snd (processTimelineData plain_browser
     (export_of [visit_segment (JBool True) JUndefined,
                 visit_segment (JStr (latLng_string ''1'' ''2'')) JUndefined])
     initial_state)) = []"
  by (simp add: processTimelineData_allLocations segment_throws_visit_segment
      locations_of_def segments_of_export_of List.map_filter_simps segment_location_visit_segment
      parse_1_2)

subsection \<open>Coordinates out of range\<close>

lemma latLng_string_not_throws: "latLng_field segment = JStr s \<Longrightarrow> \<not> segment_throws segment"
  by (auto simp: segment_throws_def latLng_field_def placeLocation_of_def property_def Let_def)

lemma locations_of_reached:
  assumes "segments_of data = before @ segment # after"
    and "\<not> list_ex segment_throws before" and "\<not> segment_throws segment"
  shows "locations_of data =
     List.map_filter segment_location before @
     (case segment_location segment of None \<Rightarrow> [] | Some l \<Rightarrow> [l]) @
     List.map_filter segment_location (takeWhile (\<lambda>s. \<not> segment_throws s) after)"
  using assms
  by (simp add: locations_of_def takeWhile_reached List.map_filter_def split: option.splits)

text \<open>
  Claim C1, as the program has it. The normalizer checks no range and counts no skipped
  records. A segment that the loop reaches (no segment before it makes the callback
  throw) and whose coordinate string splits into two parts that \<open>parseFloat\<close> reads as
  numbers is kept in \<open>allLocations\<close> whatever the two values are. A reached segment
  with a falsy link in its field chain, or whose coordinate string does not parse, is
  skipped. Skipped or kept, it leaves in \<open>allLocations\<close>, in their order, the records
  of the segments before it and of the segments after it up to the first that throws.
\<close>

theorem parsed_segment_kept_whatever_range:
  assumes "segments_of data = before @ segment # after"
    and "\<not> list_ex segment_throws before"
  shows
    "(latLng_field segment = JStr s \<and> parse_latLng s = Some (la, lo) \<longrightarrow>
       allLocations (snd (processTimelineData env data st)) =
         List.map_filter segment_location before @ location_of segment la lo #
         List.map_filter segment_location (takeWhile (\<lambda>s. \<not> segment_throws s) after)) \<and>
     (\<not> segment_throws segment \<and> segment_location segment = None \<longrightarrow>
       allLocations (snd (processTimelineData env data st)) =
         List.map_filter segment_location before @
         List.map_filter segment_location (takeWhile (\<lambda>s. \<not> segment_throws s) after))"
proof (intro conjI impI)
  assume a: "latLng_field segment = JStr s \<and> parse_latLng s = Some (la, lo)"
  then have "\<not> segment_throws segment" "segment_location segment = Some (location_of segment la lo)"
    by (simp_all add: latLng_string_not_throws segment_location_def)
  with assms show "allLocations (snd (processTimelineData env data st)) =
         List.map_filter segment_location before @ location_of segment la lo #
         List.map_filter segment_location (takeWhile (\<lambda>s. \<not> segment_throws s) after)"
    by (simp add: processTimelineData_allLocations locations_of_reached)
next
  assume "\<not> segment_throws segment \<and> segment_location segment = None"
  with assms show "allLocations (snd (processTimelineData env data st)) =
         List.map_filter segment_location before @
         List.map_filter segment_location (takeWhile (\<lambda>s. \<not> segment_throws s) after)"
    by (simp add: processTimelineData_allLocations locations_of_reached)
qed

theorem parsed_segment_kept_whatever_range_witness:
  "map lat (allLocations (snd (processTimelineData plain_browser (export_of
       [visit_segment (JStr (latLng_string ''1'' ''2'')) JUndefined,
        visit_segment (JStr (latLng_string ''95'' ''10'')) JUndefined,
        visit_segment (JStr (latLng_string ''3'' ''4'')) JUndefined]) initial_state)))
     = [Finite 1, Finite 95, Finite 3]"
  using parsed_segment_kept_whatever_range [of "export_of
       [visit_segment (JStr (latLng_string ''1'' ''2'')) JUndefined,
        visit_segment (JStr (latLng_string ''95'' ''10'')) JUndefined,
        visit_segment (JStr (latLng_string ''3'' ''4'')) JUndefined]"
      "[visit_segment (JStr (latLng_string ''1'' ''2'')) JUndefined]"
      "visit_segment (JStr (latLng_string ''95'' ''10'')) JUndefined"
      "[visit_segment (JStr (latLng_string ''3'' ''4'')) JUndefined]"
      "latLng_string ''95'' ''10''" "Finite 95" "Finite 10" plain_browser initial_state]
  by (simp add: segment_throws_visit_segment segments_of_export_of
      List.map_filter_simps segment_location_visit_segment parse_1_2 parse_3_4 parse_95_10
      latLng_field_visit_segment location_of_visit_segment)

text \<open>
  Claim C1 as stated fails: a segment with latitude 95 is not skipped, it becomes a
  record of \<open>allLocations\<close>.
\<close>

theorem out_of_range_latitude_kept:
  "allLocations (snd (processTimelineData plain_browser
     (export_of [visit_segment (JStr (latLng_string ''95'' ''10'')) JUndefined])
     initial_state)) =
   [\<lparr> lat = Finite 95, lng = Finite 10, startTime = JUndefined,
       address = JUndefined, name = JUndefined, probability = JUndefined \<rparr>]"
  by (simp add: processTimelineData_allLocations segment_throws_visit_segment
      locations_of_def segments_of_export_of List.map_filter_simps segment_location_visit_segment
      parse_95_10)

subsection \<open>What is emitted, what is skipped and what aborts\<close>

lemma segment_location_Some:
  "segment_location segment = Some loc \<longleftrightarrow>
     (\<exists>s. latLng_field segment = JStr s \<and>
          parse_latLng s = Some (lat loc, lng loc) \<and>
          loc = location_of segment (lat loc) (lng loc))"
  by (auto simp: segment_location_def location_of_def split: jsval.splits)

lemma parse_latLng_not_NaN:
  "parse_latLng s = Some (la, lo) \<Longrightarrow> \<not> isNaN la \<and> \<not> isNaN lo"
  by (auto simp: parse_latLng_def isNaN_def Let_def split: list.splits if_splits)

lemma locations_of_subset:
  "loc \<in> set (locations_of data) \<Longrightarrow>
     \<exists>segment \<in> set (segments_of data). segment_location segment = Some loc"
  by (auto simp: locations_of_def List.map_filter_def dest: set_takeWhileD)

lemma visit_segment_not_null:
  "visit_segment c t \<noteq> JNull" "visit_segment c t \<noteq> JUndefined"
  by (simp_all add: visit_segment_def)

text \<open>
  Claim C10, as the program has it. Every location in \<open>allLocations\<close> has a \<open>lat\<close> and
  a \<open>lng\<close> that are numbers other than NaN, and comes from a segment of the export
  whose \<open>latLng\<close> is a string that splits into exactly two comma-separated parts that
  both parse as numbers. A segment other than \<open>null\<close> with a falsy link in its field
  chain, or with a \<open>latLng\<close> string that fails the parse, is skipped and the loop goes
  on. A \<open>null\<close> segment, and a segment whose \<open>latLng\<close> is truthy but not a string,
  throw a TypeError, which ends the loop.
\<close>

theorem emitted_locations_have_parsed_coordinates:
  "(\<forall>loc \<in> set (allLocations (snd (processTimelineData env data st))).
       \<not> isNaN (lat loc) \<and> \<not> isNaN (lng loc) \<and>
       (\<exists>segment \<in> set (segments_of data). \<exists>s.
           latLng_field segment = JStr s \<and>
           parse_latLng s = Some (lat loc, lng loc) \<and>
           loc = location_of segment (lat loc) (lng loc))) \<and>
   (segment \<noteq> JNull \<and> segment \<noteq> JUndefined \<and>
    (\<not> truthy (latLng_field segment) \<or>
     (\<exists>s. latLng_field segment = JStr s \<and> parse_latLng s = None)) \<longrightarrow>
      forEach (segment # rest) locs = forEach rest locs) \<and>
   (segment = JNull \<or>
    (truthy (latLng_field segment) \<and> (\<forall>s. latLng_field segment \<noteq> JStr s)) \<longrightarrow>
      forEach (segment # rest) locs = (Some TypeError, locs))"
proof (intro conjI ballI impI)
  fix loc
  assume "loc \<in> set (allLocations (snd (processTimelineData env data st)))"
  then have "loc \<in> set (locations_of data)"
    by (simp add: processTimelineData_allLocations)
  then obtain segment where seg: "segment \<in> set (segments_of data)"
      and loc: "segment_location segment = Some loc"
    using locations_of_subset by blast
  from loc obtain s where s: "latLng_field segment = JStr s"
      "parse_latLng s = Some (lat loc, lng loc)" "loc = location_of segment (lat loc) (lng loc)"
    using segment_location_Some by blast
  from s(2) show "\<not> isNaN (lat loc)" "\<not> isNaN (lng loc)"
    using parse_latLng_not_NaN by blast+
  from seg s show "\<exists>segment \<in> set (segments_of data). \<exists>s.
           latLng_field segment = JStr s \<and>
           parse_latLng s = Some (lat loc, lng loc) \<and>
           loc = location_of segment (lat loc) (lng loc)"
    by blast
next
  assume "segment \<noteq> JNull \<and> segment \<noteq> JUndefined \<and>
    (\<not> truthy (latLng_field segment) \<or>
     (\<exists>s. latLng_field segment = JStr s \<and> parse_latLng s = None))"
  then show "forEach (segment # rest) locs = forEach rest locs"
    by (auto simp: forEach_callback_eq segment_throws_def segment_location_def
        parse_latLng_empty split: jsval.splits)
next
  assume "segment = JNull \<or>
    (truthy (latLng_field segment) \<and> (\<forall>s. latLng_field segment \<noteq> JStr s))"
  then show "forEach (segment # rest) locs = (Some TypeError, locs)"
    by (auto simp: forEach_callback_eq segment_throws_def split: jsval.splits)
qed

theorem emitted_locations_have_parsed_coordinates_witness:
  "allLocations (snd (processTimelineData plain_browser (export_of
       [visit_segment (JStr (str ''somewhere'')) JUndefined,
        visit_segment (JStr (latLng_string ''3'' ''4'')) JUndefined]) initial_state)) =
     [\<lparr> lat = Finite 3, lng = Finite 4, startTime = JUndefined,
            address = JUndefined, name = JUndefined, probability = JUndefined \<rparr>] \<and>
   \<not> isNaN (Finite 3) \<and> \<not> isNaN (Finite 4) \<and>
   forEach [visit_segment (JStr (str ''somewhere'')) JUndefined] [] = (None, []) \<and>
   forEach [visit_segment (JNum (Finite 5)) JUndefined] [] = (Some TypeError, [])"
proof -
  let ?good = "visit_segment (JStr (latLng_string ''3'' ''4'')) JUndefined"
  let ?skip = "visit_segment (JStr (str ''somewhere'')) JUndefined"
  let ?bad = "visit_segment (JNum (Finite 5)) JUndefined"
  let ?loc = "\<lparr> lat = Finite 3, lng = Finite 4, startTime = JUndefined,
            address = JUndefined, name = JUndefined, probability = JUndefined \<rparr>"
  have out: "allLocations (snd (processTimelineData plain_browser (export_of [?skip, ?good])
      initial_state)) = [?loc]"
    by (simp add: processTimelineData_allLocations segment_throws_visit_segment
      locations_of_def segments_of_export_of List.map_filter_simps segment_location_visit_segment
      parse_3_4 parse_garbage)
  have "\<not> isNaN (lat ?loc) \<and> \<not> isNaN (lng ?loc)"
    using emitted_locations_have_parsed_coordinates
      [of plain_browser "export_of [?skip, ?good]" initial_state ?skip "[]" "[]"] out
    by simp
  moreover have "forEach [?skip] [] = (None, [])"
    using emitted_locations_have_parsed_coordinates
      [of plain_browser "export_of [?skip, ?good]" initial_state ?skip "[]" "[]"]
    by (simp add: latLng_field_visit_segment parse_garbage visit_segment_not_null
        del: forEach.simps(2))
  moreover have "forEach [?bad] [] = (Some TypeError, [])"
    using emitted_locations_have_parsed_coordinates
      [of plain_browser "export_of [?skip, ?good]" initial_state ?bad "[]" "[]"]
    by (simp add: latLng_field_visit_segment visit_segment_not_null del: forEach.simps(2))
  ultimately show ?thesis using out by simp
qed

text \<open>
  Claim C10 as stated fails: a segment whose \<open>latLng\<close> is the number 5 is not skipped,
  it aborts the processing; the valid segment after it is never read and nothing is
  rendered.
\<close>

theorem non_string_latLng_aborts:
  "processTimelineData plain_browser
     (export_of [visit_segment (JNum (Finite 5)) JUndefined,
                 visit_segment (JStr (latLng_string ''3'' ''4'')) JUndefined]) initial_state =
   (Some TypeError, initial_state)"
  by (simp add: processTimelineData_throws export_throws_export_of segment_throws_visit_segment
      locations_of_def segments_of_export_of List.map_filter_simps initial_state_def)


section \<open>Claims about the upload handler\<close>

lemma handleFileUpload_eq:
  "handleFileUpload env (FileText parsed) st =
     (case parsed of
        None \<Rightarrow> st\<lparr>statusText := ErrorParsingJSON\<rparr>
      | Some data \<Rightarrow>
          if export_throws data
          then st\<lparr>allLocations := locations_of data, statusText := ErrorParsingJSON\<rparr>
          else st\<lparr>allLocations := locations_of data,
                  markers := drawn env (selectedYear st) (locations_of data),
                  statusText :=
                    (if render_throws env (selectedYear st) (locations_of data)
                     then ErrorParsingJSON else Loaded (length (locations_of data)))\<rparr>)"
proof (cases parsed)
  case None
  then show ?thesis by (simp add: handleFileUpload_def)
next
  case (Some data)
  obtain e st2 where p: "processTimelineData env data (st\<lparr>statusText := Parsing\<rparr>) = (e, st2)"
    by (cases "processTimelineData env data (st\<lparr>statusText := Parsing\<rparr>)")
  from p have e: "(e = None) = (\<not> export_throws data \<and>
      \<not> render_throws env (selectedYear st) (locations_of data))"
    using processTimelineData_fst [of env data "st\<lparr>statusText := Parsing\<rparr>"] by simp
  from p have s: "st2 = (if export_throws data
      then st\<lparr>statusText := Parsing, allLocations := locations_of data\<rparr>
      else st\<lparr>statusText := Parsing, allLocations := locations_of data,
              markers := drawn env (selectedYear st) (locations_of data)\<rparr>)"
    using processTimelineData_snd [of env data "st\<lparr>statusText := Parsing\<rparr>"] by simp
  show ?thesis
  proof (cases e)
    case None
    with e s Some p show ?thesis
      by (simp add: handleFileUpload_def)
  next
    case (Some err)
    with e s \<open>parsed = Some data\<close> p show ?thesis
      by (auto simp: handleFileUpload_def)
  qed
qed

lemma export_throws_non_object:
  "\<not> export_throws (JBool b)" "\<not> export_throws (JNum n)" "\<not> export_throws (JStr s)"
  "\<not> export_throws (JArr xs)"
  by (simp_all add: export_throws_def property_def)

lemma locations_of_non_object:
  "locations_of (JBool b) = []" "locations_of (JNum n) = []" "locations_of (JStr s) = []"
  "locations_of (JArr xs) = []"
  by (simp_all add: locations_of_def segments_of_def property_def List.map_filter_simps)

lemma nothing_to_render:
  "\<not> render_throws env year []" "drawn env year [] = []"
  by (cases year; simp add: render_throws_def drawn_def filter_throws_def filteredLocations_def)+

lemma drawn_without_throw:
  "\<not> render_throws env year locs \<Longrightarrow> drawn env year locs = filteredLocations env year locs"
  by (auto simp: render_throws_def drawn_def list_ex_iff takeWhile_eq_all_conv)

lemma segment_location_named_segment:
  "segment_location (named_segment (JStr s) n) =
     map_option (\<lambda>(la, lo). \<lparr> lat = la, lng = lo, startTime = JUndefined, address = JUndefined,
        name = n, probability = JUndefined \<rparr>) (parse_latLng s)"
proof -
  have p: "placeLocation_of (named_segment (JStr s) n) = JObj [(k_latLng, JStr s), (k_name, n)]"
    by (simp add: placeLocation_of_def named_segment_def property_def key_defs)
  have l: "latLng_field (named_segment (JStr s) n) = JStr s"
    by (simp add: latLng_field_def p property_def)
  have "\<And>la lo. location_of (named_segment (JStr s) n) la lo =
      \<lparr> lat = la, lng = lo, startTime = JUndefined, address = JUndefined,
        name = n, probability = JUndefined \<rparr>"
    by (simp add: location_of_def p) (simp add: named_segment_def property_def key_defs)
  with l show ?thesis
    by (cases "parse_latLng s") (auto simp: segment_location_def)
qed

lemma segment_throws_named_segment: "\<not> segment_throws (named_segment (JStr s) n)"
proof -
  have "placeLocation_of (named_segment (JStr s) n) = JObj [(k_latLng, JStr s), (k_name, n)]"
    by (simp add: placeLocation_of_def named_segment_def property_def key_defs)
  then have "latLng_field (named_segment (JStr s) n) = JStr s"
    by (simp add: latLng_field_def property_def)
  then show ?thesis by (rule latLng_string_not_throws)
qed

text \<open>
  Claim C2, as the program has it. \<open>handleFileUpload\<close> writes the one failure status
  (\<open>Error parsing JSON file\<close>) exactly when something in its \<open>try\<close> block throws:
  \<^item> \<open>JSON.parse\<close>, on content that is not JSON;
  \<^item> the normalizer, on content that is \<open>null\<close>, that has a truthy \<open>semanticSegments\<close>
    which is no array, or that has in that array a \<open>null\<close> element or a segment whose
    \<open>latLng\<close> is truthy but not a string;
  \<^item> \<open>renderMarkers\<close>: with a year selected, \<open>new Date\<close> on a \<open>startTime\<close> whose
    conversion to a primitive throws; the popup text of a location to be drawn whose
    \<open>name\<close>, \<open>address\<close> or \<open>startTime\<close> is such a value; or a Leaflet call.
  When \<open>JSON.parse\<close> or the normalizer throws, the marker layer is left as it was;
  when \<open>renderMarkers\<close> throws, the layer has been cleared and holds the markers added
  before the throw. On every other content, a JSON number, string, boolean or array
  included, the visits found are loaded and rendered and their number is reported.
\<close>

theorem upload_fails_iff_something_throws:
  "(statusText (handleFileUpload env (FileText parsed) st) = ErrorParsingJSON \<longleftrightarrow>
      (case parsed of
         None \<Rightarrow> True
       | Some data \<Rightarrow>
           export_throws data \<or> render_throws env (selectedYear st) (locations_of data))) \<and>
   ((case parsed of None \<Rightarrow> True | Some data \<Rightarrow> export_throws data) \<longrightarrow>
      markers (handleFileUpload env (FileText parsed) st) = markers st) \<and>
   (\<forall>data. parsed = Some data \<and> \<not> export_throws data \<longrightarrow>
      markers (handleFileUpload env (FileText parsed) st) =
        drawn env (selectedYear st) (locations_of data)) \<and>
   (\<forall>data. parsed = Some data \<and> \<not> export_throws data \<and>
        \<not> render_throws env (selectedYear st) (locations_of data) \<longrightarrow>
      handleFileUpload env (FileText parsed) st =
        st\<lparr>allLocations := locations_of data,
           markers := filteredLocations env (selectedYear st) (locations_of data),
           statusText := Loaded (length (locations_of data))\<rparr>) \<and>
   handleFileUpload env (FileText (Some (JBool b))) st =
     st\<lparr>allLocations := [], markers := [], statusText := Loaded 0\<rparr> \<and>
   handleFileUpload env (FileText (Some (JNum n))) st =
     st\<lparr>allLocations := [], markers := [], statusText := Loaded 0\<rparr> \<and>
   handleFileUpload env (FileText (Some (JStr s))) st =
     st\<lparr>allLocations := [], markers := [], statusText := Loaded 0\<rparr> \<and>
   handleFileUpload env (FileText (Some (JArr xs))) st =
     st\<lparr>allLocations := [], markers := [], statusText := Loaded 0\<rparr>"
  by (cases parsed)
     (simp_all add: handleFileUpload_eq export_throws_non_object locations_of_non_object
        nothing_to_render drawn_without_throw)

theorem upload_fails_iff_something_throws_witness:
  "statusText (handleFileUpload plain_browser (FileText None) initial_state) = ErrorParsingJSON \<and>
   statusText (handleFileUpload plain_browser (FileText (Some JNull)) initial_state) =
     ErrorParsingJSON \<and>
   handleFileUpload plain_browser (FileText (Some (export_of
       [named_segment (JStr (latLng_string ''3'' ''4'')) (JObj [(k_toString, JNum (Finite 1))])])))
     initial_state =
     initial_state\<lparr>allLocations := [\<lparr> lat = Finite 3, lng = Finite 4, startTime = JUndefined,
            address = JUndefined, name = JObj [(k_toString, JNum (Finite 1))],
            probability = JUndefined \<rparr>],
        statusText := ErrorParsingJSON\<rparr> \<and>
   handleFileUpload plain_browser (FileText (Some (export_of
       [visit_segment (JStr (latLng_string ''3'' ''4'')) JUndefined]))) initial_state =
     initial_state\<lparr>allLocations := [\<lparr> lat = Finite 3, lng = Finite 4, startTime = JUndefined,
            address = JUndefined, name = JUndefined, probability = JUndefined \<rparr>],
        markers := [\<lparr> lat = Finite 3, lng = Finite 4, startTime = JUndefined,
            address = JUndefined, name = JUndefined, probability = JUndefined \<rparr>],
        statusText := Loaded 1\<rparr>"
proof -
  let ?d = "export_of [visit_segment (JStr (latLng_string ''3'' ''4'')) JUndefined]"
  let ?l = "\<lparr> lat = Finite 3, lng = Finite 4, startTime = JUndefined,
            address = JUndefined, name = JUndefined, probability = JUndefined \<rparr>"
  let ?n = "export_of
       [named_segment (JStr (latLng_string ''3'' ''4'')) (JObj [(k_toString, JNum (Finite 1))])]"
  let ?m = "\<lparr> lat = Finite 3, lng = Finite 4, startTime = JUndefined,
            address = JUndefined, name = JObj [(k_toString, JNum (Finite 1))],
            probability = JUndefined \<rparr>"
  have 1: "statusText (handleFileUpload plain_browser (FileText None) initial_state) =
      ErrorParsingJSON"
    using upload_fails_iff_something_throws [of plain_browser None initial_state]
    by simp
  have 2: "statusText (handleFileUpload plain_browser (FileText (Some JNull)) initial_state) =
      ErrorParsingJSON"
    using upload_fails_iff_something_throws [of plain_browser "Some JNull" initial_state]
    by (simp add: export_throws_def)
  have nt: "\<not> export_throws ?d"
    by (simp add: export_throws_export_of segment_throws_visit_segment)
  have l: "locations_of ?d = [?l]"
    by (simp add: locations_of_def segments_of_export_of segment_throws_visit_segment
        List.map_filter_simps segment_location_visit_segment parse_3_4)
  have y: "selectedYear initial_state = None"
    by (simp add: initial_state_def)
  have r: "\<not> render_throws plain_browser None [?l]"
    by (simp add: render_throws_def filter_throws_def year_selected_def filteredLocations_def
        plain_browser_def draw_throws_def popup_throws_def)
  have 3: "handleFileUpload plain_browser (FileText (Some ?d)) initial_state =
     initial_state\<lparr>allLocations := [?l], markers := [?l], statusText := Loaded 1\<rparr>"
    using upload_fails_iff_something_throws [of plain_browser "Some ?d" initial_state] nt r
    by (simp add: l y filteredLocations_def)
  have nn: "\<not> export_throws ?n"
    by (simp add: export_throws_export_of segment_throws_named_segment)
  have ln: "locations_of ?n = [?m]"
    by (simp add: locations_of_def segments_of_export_of segment_throws_named_segment
        List.map_filter_simps segment_location_named_segment parse_3_4)
  have rn: "render_throws plain_browser None [?m]" "drawn plain_browser None [?m] = []"
    by (simp_all add: render_throws_def drawn_def filter_throws_def year_selected_def
        filteredLocations_def plain_browser_def draw_throws_def popup_throws_def)
  have 4: "handleFileUpload plain_browser (FileText (Some ?n)) initial_state =
      initial_state\<lparr>allLocations := [?m], statusText := ErrorParsingJSON\<rparr>"
    by (simp add: handleFileUpload_eq nn ln rn y) (simp add: initial_state_def)
  show ?thesis using 1 2 3 4 by simp
qed

text \<open>
  Claim C2 as stated fails in both directions: the JSON text \<open>5\<close> is not an object
  and is loaded as zero visits with no failure, and the JSON object
  \<open>{"semanticSegments": [null]}\<close> ends in the failure status.
\<close>

theorem upload_of_number_loads_and_object_fails:
  "handleFileUpload plain_browser (FileText (Some (JNum (Finite 5)))) initial_state =
     initial_state\<lparr>statusText := Loaded 0\<rparr> \<and>
   handleFileUpload plain_browser (FileText (Some (export_of [JNull]))) initial_state =
     initial_state\<lparr>statusText := ErrorParsingJSON\<rparr>"
  by (simp add: handleFileUpload_eq export_throws_non_object locations_of_non_object
      nothing_to_render export_throws_export_of segment_throws_def)
     (simp add: locations_of_def segments_of_export_of List.map_filter_simps segment_throws_def
       initial_state_def)


section \<open>Claims about records without a usable time\<close>

lemma locations_of_member:
  assumes "segments_of data = before @ segment # after"
    and "\<not> list_ex segment_throws before" and "segment_location segment = Some loc"
  shows "loc \<in> set (locations_of data)"
proof -
  from assms(3) have "\<not> segment_throws segment"
    by (auto simp: segment_location_def latLng_string_not_throws split: jsval.splits)
  with assms show ?thesis
    by (simp add: locations_of_reached)
qed

lemma year_filter_excludes:
  assumes "\<not> truthy (startTime loc) \<or> getFullYear env (startTime loc) = None"
    and "year_selected year"
  shows "loc \<notin> set (drawn env year locs)"
proof -
  from assms have "loc \<notin> set (filteredLocations env year locs)"
    by (cases year) (auto simp: filteredLocations_def year_selected_def strictEquals_def)
  then show ?thesis
    by (auto simp: drawn_def dest: set_takeWhileD)
qed

lemma drawn_without_year:
  "\<not> year_selected year \<Longrightarrow>
     drawn env year locs =
       (if fitBounds_throws env locs then []
        else takeWhile (\<lambda>loc. \<not> draw_throws env loc) locs)"
  by (cases year) (auto simp: drawn_def filter_throws_def filteredLocations_def year_selected_def)

lemma iso_year_examples:
  "iso_year (JStr (str ''2023-01-05T10:00:00Z'')) = Some 2023"
  "iso_year (JStr (str ''not-a-date'')) = None"
  "parseInt (str ''2023'') = Some 2023"
  by (simp_all add: iso_year_def parseInt_def str_def isDigit_def digitsValue_def signOf_def
      trimStart_def isStrWhiteSpaceChar_def)

text \<open>
  Claim C5, as the program has it. A segment with valid location data that the loop
  reaches is included whatever its time stamp, and its location keeps the segment's raw
  \<open>startTime\<close>: \<open>undefined\<close> when the segment has none, the unparsed value when it
  is no date; nothing is set to \<open>null\<close> and no end time is recorded. When the
  normalizer does not throw, \<open>renderMarkers\<close> runs: with a year selected, a location
  whose \<open>startTime\<close> is falsy or is no date gets no marker; with no year selected,
  every location gets its marker, up to the first location for which building the popup
  or a Leaflet call throws (and none if fitting the map throws).
\<close>

theorem raw_startTime_kept_and_year_filter_excludes:
  assumes "segments_of data = before @ segment # after"
    and "\<not> list_ex segment_throws before"
    and "segment_location segment = Some loc"
  shows "loc \<in> set (allLocations (snd (processTimelineData env data st))) \<and>
    startTime loc = property segment k_startTime \<and>
    (\<not> export_throws data \<and> year_selected (selectedYear st) \<and>
     (\<not> truthy (startTime loc) \<or> getFullYear env (startTime loc) = None) \<longrightarrow>
       loc \<notin> set (markers (snd (processTimelineData env data st)))) \<and>
    (\<not> export_throws data \<and> \<not> year_selected (selectedYear st) \<longrightarrow>
       markers (snd (processTimelineData env data st)) =
         (if fitBounds_throws env (allLocations (snd (processTimelineData env data st))) then []
          else takeWhile (\<lambda>l. \<not> draw_throws env l)
                 (allLocations (snd (processTimelineData env data st))))) \<and>
    (\<not> export_throws data \<and> \<not> year_selected (selectedYear st) \<and>
     fst (processTimelineData env data st) = None \<longrightarrow>
       markers (snd (processTimelineData env data st)) =
         allLocations (snd (processTimelineData env data st)))"
proof -
  have s: "startTime loc = property segment k_startTime"
    using assms(3) by (auto simp: segment_location_def location_of_def split: jsval.splits)
  have m: "loc \<in> set (locations_of data)"
    using assms by (rule locations_of_member)
  have n: "\<not> year_selected (selectedYear st) \<Longrightarrow>
      filteredLocations env (selectedYear st) (locations_of data) = locations_of data"
    by (cases "selectedYear st") (auto simp: filteredLocations_def year_selected_def)
  have a: "allLocations (snd (processTimelineData env data st)) = locations_of data"
    by (simp add: processTimelineData_allLocations)
  have c3: "\<not> export_throws data \<and> year_selected (selectedYear st) \<and>
     (\<not> truthy (startTime loc) \<or> getFullYear env (startTime loc) = None) \<longrightarrow>
       loc \<notin> set (markers (snd (processTimelineData env data st)))"
    by (auto simp: processTimelineData_snd year_filter_excludes)
  have c4: "\<not> export_throws data \<and> \<not> year_selected (selectedYear st) \<longrightarrow>
       markers (snd (processTimelineData env data st)) =
         (if fitBounds_throws env (locations_of data) then []
          else takeWhile (\<lambda>l. \<not> draw_throws env l) (locations_of data))"
    by (simp add: processTimelineData_snd drawn_without_year)
  have c5: "\<not> export_throws data \<and> \<not> year_selected (selectedYear st) \<and>
     fst (processTimelineData env data st) = None \<longrightarrow>
       markers (snd (processTimelineData env data st)) = locations_of data"
    using n by (simp add: processTimelineData_snd processTimelineData_fst drawn_without_throw)
  show ?thesis
    unfolding a using s m c3 c4 c5 by blast
qed

theorem raw_startTime_kept_and_year_filter_excludes_witness:
  "map lat (allLocations (snd (processTimelineData plain_browser (export_of
       [visit_segment (JStr (latLng_string ''1'' ''2'')) (JStr (str ''2023-01-05T10:00:00Z'')),
        visit_segment (JStr (latLng_string ''3'' ''4'')) (JStr (str ''not-a-date''))])
       (initial_state\<lparr>selectedYear := Some (str ''2023'')\<rparr>)))) = [Finite 1, Finite 3] \<and>
   map lat (markers (snd (processTimelineData plain_browser (export_of
       [visit_segment (JStr (latLng_string ''1'' ''2'')) (JStr (str ''2023-01-05T10:00:00Z'')),
        visit_segment (JStr (latLng_string ''3'' ''4'')) (JStr (str ''not-a-date''))])
       (initial_state\<lparr>selectedYear := Some (str ''2023'')\<rparr>)))) = [Finite 1] \<and>
   map lat (markers (snd (processTimelineData plain_browser (export_of
       [visit_segment (JStr (latLng_string ''1'' ''2'')) (JStr (str ''2023-01-05T10:00:00Z'')),
        visit_segment (JStr (latLng_string ''3'' ''4'')) (JStr (str ''not-a-date''))])
       initial_state))) = [Finite 1, Finite 3]"
proof -
  let ?a = "visit_segment (JStr (latLng_string ''1'' ''2'')) (JStr (str ''2023-01-05T10:00:00Z''))"
  let ?b = "visit_segment (JStr (latLng_string ''3'' ''4'')) (JStr (str ''not-a-date''))"
  let ?k = "\<lparr> lat = Finite 1, lng = Finite 2, startTime = JStr (str ''2023-01-05T10:00:00Z''),
            address = JUndefined, name = JUndefined, probability = JUndefined \<rparr>"
  let ?l = "\<lparr> lat = Finite 3, lng = Finite 4, startTime = JStr (str ''not-a-date''),
            address = JUndefined, name = JUndefined, probability = JUndefined \<rparr>"
  let ?st = "initial_state\<lparr>selectedYear := Some (str ''2023'')\<rparr>"
  let ?d = "export_of [?a, ?b]"
  have nt: "\<not> export_throws ?d"
    by (simp add: export_throws_export_of segment_throws_visit_segment)
  have sp: "segments_of ?d = [?a] @ ?b # []"
    by (simp add: segments_of_export_of)
  have rb: "\<not> list_ex segment_throws [?a]"
    by (simp add: segment_throws_visit_segment)
  have l: "segment_location ?b = Some ?l"
    by (simp add: segment_location_visit_segment parse_3_4)
  have ne: "str ''2023-01-05T10:00:00Z'' \<noteq> []" "str ''not-a-date'' \<noteq> []" "str ''2023'' \<noteq> []"
    by (simp_all add: str_def)
  have y: "year_selected (selectedYear ?st)" "\<not> year_selected (selectedYear initial_state)"
    by (simp_all add: year_selected_def ne initial_state_def)
  have g: "getFullYear plain_browser (startTime ?l) = None"
    by (simp add: plain_browser_def iso_year_examples)
  have locs: "locations_of ?d = [?k, ?l]"
    by (simp add: locations_of_def segments_of_export_of segment_throws_visit_segment
        List.map_filter_simps segment_location_visit_segment parse_1_2 parse_3_4)
  have out: "?l \<notin> set (markers (snd (processTimelineData plain_browser ?d ?st)))"
    using raw_startTime_kept_and_year_filter_excludes [OF sp rb l, of plain_browser ?st] nt y(1) g
    by blast
  have all: "markers (snd (processTimelineData plain_browser ?d initial_state)) =
      (if fitBounds_throws plain_browser
            (allLocations (snd (processTimelineData plain_browser ?d initial_state))) then []
       else takeWhile (\<lambda>l. \<not> draw_throws plain_browser l)
              (allLocations (snd (processTimelineData plain_browser ?d initial_state))))"
    using raw_startTime_kept_and_year_filter_excludes [OF sp rb l, of plain_browser initial_state]
      nt y(2)
    by blast
  have dr: "\<not> draw_throws plain_browser ?k" "\<not> draw_throws plain_browser ?l"
    "\<not> fitBounds_throws plain_browser [?k, ?l]"
    by (simp_all add: draw_throws_def popup_throws_def plain_browser_def)
  have a1: "allLocations (snd (processTimelineData plain_browser ?d ?st)) = [?k, ?l]"
    "allLocations (snd (processTimelineData plain_browser ?d initial_state)) = [?k, ?l]"
    by (simp_all add: processTimelineData_allLocations locs)
  have m2: "markers (snd (processTimelineData plain_browser ?d initial_state)) = [?k, ?l]"
    using all dr by (simp add: a1)
  have f: "filteredLocations plain_browser (Some (str ''2023'')) [?k, ?l] = [?k]"
    by (simp add: filteredLocations_def ne plain_browser_def iso_year_examples strictEquals_def)
  have ft: "\<not> filter_throws (Some (str ''2023'')) [?k, ?l]"
    by (simp add: filter_throws_def)
  have fb: "\<not> fitBounds_throws plain_browser [?k]"
    by (simp add: plain_browser_def)
  have d1: "drawn plain_browser (Some (str ''2023'')) [?k, ?l] = [?k]"
    unfolding drawn_def f using ft fb dr(1) by simp
  have m1: "markers (snd (processTimelineData plain_browser ?d ?st)) = [?k]"
    using nt by (simp add: processTimelineData_snd locs d1)
  show ?thesis
    using out by (simp add: a1 m1 m2)
qed

text \<open>
  Claim C5 as stated fails: the location of a segment whose \<open>startTime\<close> is the
  string \<open>not-a-date\<close> carries that string, not \<open>null\<close>.
\<close>

theorem unparseable_startTime_is_not_null:
  "map startTime (allLocations (snd (processTimelineData plain_browser
     (export_of [visit_segment (JStr (latLng_string ''3'' ''4'')) (JStr (str ''not-a-date''))])
     initial_state))) = [JStr (str ''not-a-date'')] \<and>
   JStr (str ''not-a-date'') \<noteq> JNull"
  by (simp add: processTimelineData_allLocations segment_throws_visit_segment
      locations_of_def segments_of_export_of List.map_filter_simps segment_location_visit_segment
      parse_3_4)


section \<open>Properties of the geometry kernel\<close>

lemma haversine_commute: "haversine a b = haversine b a"
proof -
  have "\<And>x y :: real. (sin ((x - y) / 2)) ^ 2 = (sin ((y - x) / 2)) ^ 2"
  proof -
    fix x y :: real
    have "sin ((x - y) / 2) = - sin ((y - x) / 2)"
      by (metis minus_diff_eq minus_divide_left sin_minus)
    then show "(sin ((x - y) / 2)) ^ 2 = (sin ((y - x) / 2)) ^ 2"
      by simp
  qed
  then show ?thesis
    by (simp add: haversine_def mult.commute)
qed

lemma distance_commute: "distance a b = distance b a"
  by (simp add: distance_def haversine_commute)

lemma half_rad: "toRadians d / 2 = d * (pi / 360)"
  by (simp add: toRadians_def)

section \<open>Properties of the deduplicator\<close>

lemma merges_commute: "merges thr a b = merges thr b a"
  unfolding merges_def sameSourcePlace_def idConflict_def distance_commute [of "coordinate a"]
  by (cases "sourcePlaceId a"; cases "sourcePlaceId b") auto

lemma component_superset: "set c \<subseteq> set (component thr vs c)"
proof (induction thr vs c rule: component.induct)
  case (1 thr vs c)
  show ?case
  proof (cases "filter (\<lambda>u. u \<notin> set c \<and> list_ex (\<lambda>w. merges thr w u) c) vs = []")
    case True
    then show ?thesis by (subst component.simps) simp
  next
    case False
    with "1" [OF refl False] show ?thesis
      by (subst component.simps) (auto simp: Let_def)
  qed
qed

lemma component_closed:
  "w \<in> set (component thr vs c) \<Longrightarrow> u \<in> set vs \<Longrightarrow> merges thr w u \<Longrightarrow>
     u \<in> set (component thr vs c)"
proof (induction thr vs c rule: component.induct)
  case (1 thr vs c)
  let ?new = "filter (\<lambda>u. u \<notin> set c \<and> list_ex (\<lambda>w. merges thr w u) c) vs"
  show ?case
  proof (cases "?new = []")
    case True
    then have eq: "component thr vs c = c"
      by (subst component.simps) simp
    with "1.prems" have "w \<in> set c" by simp
    show ?thesis
    proof (rule ccontr)
      assume "u \<notin> set (component thr vs c)"
      with eq have "u \<notin> set c" by simp
      with \<open>w \<in> set c\<close> "1.prems" have "u \<in> set ?new"
        by (auto simp: list_ex_iff)
      with True show False by simp
    qed
  next
    case False
    then have eq: "component thr vs c = component thr vs (c @ ?new)"
      by (subst component.simps) (simp add: Let_def)
    from "1.IH" [OF refl False] "1.prems" show ?thesis
      unfolding eq by simp
  qed
qed

lemma clusters_subset: "c \<in> set (clusters thr vs) \<Longrightarrow> set c \<subseteq> set vs"
proof (induction thr vs arbitrary: c rule: clusters.induct)
  case (1 thr)
  then show ?case by simp
next
  case (2 thr v rest)
  from "2.prems" show ?case
  proof (simp add: Let_def, elim disjE)
    assume "c = (if v \<in> set (component thr (v # rest) [v]) then v # filter (\<lambda>u. u \<in> set (component thr (v # rest) [v])) rest else filter (\<lambda>u. u \<in> set (component thr (v # rest) [v])) rest)"
    then show "set c \<subseteq> insert v (set rest)" by auto
  next
    assume "c \<in> set (clusters thr (filter (\<lambda>u. u \<notin> set (component thr (v # rest) [v])) rest))"
    from "2.IH" [OF refl this] show "set c \<subseteq> insert v (set rest)" by auto
  qed
qed

lemma clusters_cover: "x \<in> set vs \<Longrightarrow> \<exists>c \<in> set (clusters thr vs). x \<in> set c"
proof (induction thr vs rule: clusters.induct)
  case (1 thr)
  then show ?case by simp
next
  case (2 thr v rest)
  let ?comp = "component thr (v # rest) [v]"
  have v: "v \<in> set ?comp"
    using component_superset [of "[v]" thr "v # rest"] by simp
  show ?case
  proof (cases "x \<in> set ?comp")
    case True
    with "2.prems" have "x \<in> set (filter (\<lambda>u. u \<in> set ?comp) (v # rest))"
      by (simp del: filter.simps)
    then show ?thesis
      by (simp add: Let_def del: filter.simps)
  next
    case False
    with v "2.prems" have "x \<in> set (filter (\<lambda>u. u \<notin> set ?comp) rest)"
      by auto
    from "2.IH" [OF refl this] show ?thesis
      by (simp add: Let_def del: filter.simps)
  qed
qed

lemma clusters_merged:
  assumes "a \<in> set vs" "b \<in> set vs" "merges thr a b" "c \<in> set (clusters thr vs)"
  shows "a \<in> set c \<longleftrightarrow> b \<in> set c"
  using assms
proof (induction thr vs arbitrary: c rule: clusters.induct)
  case (1 thr)
  then show ?case by simp
next
  case (2 thr v rest)
  let ?comp = "component thr (v # rest) [v]"
  let ?rest = "filter (\<lambda>u. u \<notin> set ?comp) rest"
  have v: "v \<in> set ?comp"
    using component_superset [of "[v]" thr "v # rest"] by simp
  have ab: "a \<in> set ?comp \<longleftrightarrow> b \<in> set ?comp"
    using component_closed [of a thr "v # rest" "[v]" b]
      component_closed [of b thr "v # rest" "[v]" a] "2.prems"(1-3) merges_commute [of thr a b]
    by blast
  from "2.prems"(4) consider
    (first) "c = filter (\<lambda>u. u \<in> set ?comp) (v # rest)" | (later) "c \<in> set (clusters thr ?rest)"
    by (auto simp: Let_def simp del: filter.simps)
  then show ?case
  proof cases
    case first
    with "2.prems"(1,2) ab show ?thesis by (simp del: filter.simps)
  next
    case later
    show ?thesis
    proof (cases "a \<in> set ?comp")
      case True
      with ab have "a \<notin> set ?rest" "b \<notin> set ?rest" by simp_all
      with clusters_subset [OF later] show ?thesis by auto
    next
      case False
      with ab v "2.prems"(1,2) have "a \<in> set ?rest" "b \<in> set ?rest" by auto
      from "2.IH" [OF refl this "2.prems"(3) later] show ?thesis .
    qed
  qed
qed

lemma visits_place_of: "visits (place_of c) = c"
  by (simp add: place_of_def)

lemma chain_component:
  assumes "merges thr a b" "merges thr b c"
  shows "clusters thr [a, b, c] = [[a, b, c]]"
proof -
  let ?comp = "component thr [a, b, c] [a]"
  have a: "a \<in> set ?comp"
    using component_superset [of "[a]" thr "[a, b, c]"] by simp
  have b: "b \<in> set ?comp"
    using component_closed [OF a _ assms(1)] by simp
  have c: "c \<in> set ?comp"
    using component_closed [OF b _ assms(2)] by simp
  show ?thesis
    using a b c by (simp add: Let_def)
qed

lemma distance_on_equator:
  assumes "0 \<le> d" "d \<le> 180"
  shows "distance (0, 0) (0, d) = earthRadius * toRadians d"
proof -
  define y where "y = toRadians d / 2"
  have y: "0 \<le> y" "y \<le> pi / 2"
  proof -
    have "0 * (pi / 360) \<le> d * (pi / 360)" "d * (pi / 360) \<le> 180 * (pi / 360)"
      using assms by (intro mult_right_mono; simp)+
    then show "0 \<le> y" "y \<le> pi / 2"
      by (simp_all add: y_def half_rad)
  qed
  have s: "0 \<le> sin y"
    using y by (intro sin_ge_zero) (use pi_gt_zero in linarith)+
  have "haversine (0, 0) (0, d) = (sin y) ^ 2"
    by (simp add: haversine_def toRadians_def y_def)
  then have "sqrt (haversine (0, 0) (0, d)) = sin y"
    using s by simp
  moreover have "arcsin (sin y) = y"
    using y by (intro arcsin_sin) linarith+
  ultimately show ?thesis
    by (simp add: distance_def y_def)
qed

lemma earth_degrees: "earthRadius * toRadians d = d * (pi * 6371000 / 180)"
  by (simp add: earthRadius_def toRadians_def)

lemma equator_distances:
  "distance (0, 0) (0, 1 / 2000) = pi * (6371 / 360)"
  "distance (0, 0) (0, 1 / 1000) = pi * (6371 / 180)"
  "distance (0, 0) (0, 1 / 20) = pi * (63710 / 36)"
proof -
  show "distance (0, 0) (0, 1 / 2000) = pi * (6371 / 360)"
    using distance_on_equator [of "1 / 2000"] by (simp add: earth_degrees)
  show "distance (0, 0) (0, 1 / 1000) = pi * (6371 / 180)"
    using distance_on_equator [of "1 / 1000"] by (simp add: earth_degrees)
  show "distance (0, 0) (0, 1 / 20) = pi * (63710 / 36)"
    using distance_on_equator [of "1 / 20"] by (simp add: earth_degrees)
qed

lemma distance_step:
  "distance (0, 1 / 2000) (0, 1 / 1000) = pi * (6371 / 360)"
proof -
  have "haversine (0, 1 / 2000) (0, 1 / 1000) = haversine (0, 0) (0, 1 / 2000)"
    by (simp add: haversine_def toRadians_def)
  then show ?thesis
    using equator_distances(1) by (simp add: distance_def)
qed

lemma pi_ge_three: "3 \<le> pi"
proof -
  have "sin (pi / 6) \<le> pi / 6"
    by (rule sin_x_le_x) simp
  then show ?thesis
    by (simp add: sin_30)
qed

lemma pi_bounds_for_examples:
  "pi * (6371 / 360) \<le> 100" "100 < pi * (6371 / 180)" "5000 < pi * (63710 / 36)"
proof -
  have "pi * (6371 / 360) \<le> 4 * (6371 / 360)"
    using pi_less_4 by (intro mult_right_mono) simp_all
  then show "pi * (6371 / 360) \<le> 100" by simp
  have "3 * (6371 / 180) \<le> pi * (6371 / 180)"
    using pi_ge_three by (intro mult_right_mono) simp_all
  then show "100 < pi * (6371 / 180)" by simp
  have "3 * (63710 / 36) \<le> pi * (63710 / 36)"
    using pi_ge_three by (intro mult_right_mono) simp_all
  then show "5000 < pi * (63710 / 36)" by simp
qed

lemma visit_at_fields:
  "coordinate (visit_at c i) = c" "sourcePlaceId (visit_at c i) = i"
  by (simp_all add: visit_at_def)

text \<open>
  Claim C6. Three visits \<open>a\<close>, \<open>b\<close>, \<open>c\<close> in which \<open>a\<close>, \<open>b\<close> and \<open>b\<close>, \<open>c\<close>
  are within the threshold of each other, with no conflict of identifiers along the
  chain, merge into exactly one Place that holds all three, whatever the distance from
  \<open>a\<close> to \<open>c\<close> is. Distances of 50, 50 and 140 metres under a threshold of 100
  metres are an instance of the hypotheses. (On the sphere the distance from \<open>a\<close> to
  \<open>c\<close> is at most the sum of the other two; the example below has 55.6, 55.6 and
  111.2 metres.)
\<close>

theorem chain_of_three_is_one_place:
  assumes "distance (coordinate a) (coordinate b) \<le> thr"
    and "distance (coordinate b) (coordinate c) \<le> thr"
    and "\<not> idConflict a b" and "\<not> idConflict b c"
  shows "dedupe thr [a, b, c] = [place_of [a, b, c]]"
proof -
  have "merges thr a b" "merges thr b c"
    using assms by (simp_all add: merges_def)
  then have "clusters thr [a, b, c] = [[a, b, c]]"
    by (rule chain_component)
  then show ?thesis
    by (simp only: dedupe_def list.map)
qed

theorem chain_of_three_is_one_place_witness:
  "dedupe 100 [visit_at (0, 0) None, visit_at (0, 1 / 2000) None, visit_at (0, 1 / 1000) None] =
     [place_of [visit_at (0, 0) None, visit_at (0, 1 / 2000) None, visit_at (0, 1 / 1000) None]] \<and>
   distance (0, 0) (0, 1 / 2000) \<le> 100 \<and> distance (0, 1 / 2000) (0, 1 / 1000) \<le> 100 \<and>
   100 < distance (0, 0) (0, 1 / 1000)"
proof -
  have ab: "distance (0, 0) (0, 1 / 2000) \<le> 100"
    by (simp only: equator_distances pi_bounds_for_examples)
  have bc: "distance (0, 1 / 2000) (0, 1 / 1000) \<le> 100"
    by (simp only: distance_step pi_bounds_for_examples)
  have ac: "100 < distance (0, 0) (0, 1 / 1000)"
    by (simp only: equator_distances pi_bounds_for_examples)
  have "dedupe 100 [visit_at (0, 0) None, visit_at (0, 1 / 2000) None, visit_at (0, 1 / 1000) None] =
     [place_of [visit_at (0, 0) None, visit_at (0, 1 / 2000) None, visit_at (0, 1 / 1000) None]]"
    by (rule chain_of_three_is_one_place)
       (simp_all only: visit_at_fields ab bc idConflict_def, simp_all)
  with ab bc ac show ?thesis by blast
qed

text \<open>
  Claim C7. Two visits of the input that share a non-null \<open>sourcePlaceId\<close> lie in
  one and the same Place, whatever the threshold and the distance between their
  coordinates are: some Place holds both, and no Place holds one without the other.
\<close>

theorem shared_sourcePlaceId_merges:
  assumes "a \<in> set vs" and "b \<in> set vs"
    and "sourcePlaceId a = Some p" and "sourcePlaceId b = Some p"
  shows "(\<exists>pl \<in> set (dedupe thr vs). a \<in> set (visits pl) \<and> b \<in> set (visits pl)) \<and>
         (\<forall>pl \<in> set (dedupe thr vs). a \<in> set (visits pl) \<longleftrightarrow> b \<in> set (visits pl))"
proof -
  have m: "merges thr a b"
    using assms(3,4) by (simp add: merges_def sameSourcePlace_def)
  from clusters_cover [OF assms(1)] obtain c where c: "c \<in> set (clusters thr vs)" "a \<in> set c"
    by blast
  with clusters_merged [OF assms(1,2) m] have "b \<in> set c" by blast
  with c have "\<exists>pl \<in> set (dedupe thr vs). a \<in> set (visits pl) \<and> b \<in> set (visits pl)"
    by (auto simp: dedupe_def visits_place_of)
  moreover have "\<forall>pl \<in> set (dedupe thr vs). a \<in> set (visits pl) \<longleftrightarrow> b \<in> set (visits pl)"
    using clusters_merged [OF assms(1,2) m] by (auto simp: dedupe_def visits_place_of)
  ultimately show ?thesis by blast
qed

theorem shared_sourcePlaceId_merges_witness:
  "(\<exists>pl \<in> set (dedupe 100 [visit_at (0, 0) (Some ''p''), visit_at (0, 1 / 20) (Some ''p'')]).
      visit_at (0, 0) (Some ''p'') \<in> set (visits pl) \<and>
      visit_at (0, 1 / 20) (Some ''p'') \<in> set (visits pl)) \<and>
   5000 < distance (0, 0) (0, 1 / 20)"
proof -
  have far: "5000 < distance (0, 0) (0, 1 / 20)"
    by (simp only: equator_distances pi_bounds_for_examples)
  have "\<exists>pl \<in> set (dedupe 100 [visit_at (0, 0) (Some ''p''), visit_at (0, 1 / 20) (Some ''p'')]).
      visit_at (0, 0) (Some ''p'') \<in> set (visits pl) \<and>
      visit_at (0, 1 / 20) (Some ''p'') \<in> set (visits pl)"
    using shared_sourcePlaceId_merges [of "visit_at (0, 0) (Some ''p'')"
      "[visit_at (0, 0) (Some ''p''), visit_at (0, 1 / 20) (Some ''p'')]"
      "visit_at (0, 1 / 20) (Some ''p'')" "''p''" 100]
    by (simp only: visit_at_fields list.set) blast
  with far show ?thesis by blast
qed


section \<open>Properties of the aggregator\<close>

lemma totalDistance_aggregate:
  "totalDistance (aggregate E resolve vs ms ps) = sum_list (map distanceMeters ms)"
  by (simp add: aggregate_def)

lemma carbonEstimate_aggregate:
  "carbonEstimate (aggregate E resolve vs ms ps) = sum_list (map distanceMeters ms) * E"
  by (simp add: aggregate_def)

text \<open>
  Claim C9. The carbon estimate of the StatsBundle is the total distance times the one
  emissions factor \<open>E\<close>, whatever the movements and their modes are; a movement of 1000
  metres adds exactly 1000 metres to the total distance and exactly \<open>1000 * E\<close> to the
  carbon estimate.
\<close>

theorem carbon_is_distance_times_factor:
  "carbonEstimate (aggregate E resolve vs ms ps) =
     totalDistance (aggregate E resolve vs ms ps) * E \<and>
   (distanceMeters m = 1000 \<longrightarrow>
      totalDistance (aggregate E resolve vs (before @ m # after) ps) =
        totalDistance (aggregate E resolve vs (before @ after) ps) + 1000 \<and>
      carbonEstimate (aggregate E resolve vs (before @ m # after) ps) =
        carbonEstimate (aggregate E resolve vs (before @ after) ps) + 1000 * E)"
  by (simp add: totalDistance_aggregate carbonEstimate_aggregate distrib_right)

theorem carbon_is_distance_times_factor_witness:
  "totalDistance (aggregate (1 / 5) (\<lambda>c. None) []
       [\<lparr> m_startTime = None, m_endTime = None, distanceMeters = 1000, mode = None \<rparr>] []) = 1000 \<and>
   carbonEstimate (aggregate (1 / 5) (\<lambda>c. None) []
       [\<lparr> m_startTime = None, m_endTime = None, distanceMeters = 1000, mode = None \<rparr>] []) = 200"
  using carbon_is_distance_times_factor [of "1 / 5" "\<lambda>c. None" "[]" "[]" "[]"
      "\<lparr> m_startTime = None, m_endTime = None, distanceMeters = 1000, mode = None \<rparr>" "[]" "[]"]
  by (simp add: totalDistance_aggregate carbonEstimate_aggregate)


section \<open>An export without segments\<close>

lemma dedupe_Nil: "dedupe thr [] = []"
  by (simp add: dedupe_def)

lemma aggregate_empty:
  "aggregate E resolve [] [] [] =
     \<lparr> totalDistance = 0, uniquePlaces = 0, uniqueCountries = 0, movingDuration = 0,
       stationaryDuration = 0, carbonEstimate = 0, longestMovement = None,
       mostVisitedPlace = None \<rparr>"
  by (simp add: aggregate_def List.map_filter_simps)

lemma no_segments:
  assumes "data = JObj ps"
    and "property data k_semanticSegments = JArr [] \<or> \<not> truthy (property data k_semanticSegments)"
  shows "\<not> export_throws data" "locations_of data = []"
proof -
  show "\<not> export_throws data"
    using assms by (cases "property data k_semanticSegments") (auto simp: export_throws_def)
  show "locations_of data = []"
    using assms
    by (cases "property data k_semanticSegments")
       (auto simp: locations_of_def segments_of_def List.map_filter_simps)
qed

text \<open>
  Claim C3. For an export object with no segments (its \<open>semanticSegments\<close> is an empty
  array, or is missing or falsy), the upload ends with no failure: zero visits are
  loaded and reported and no marker is drawn. Of no visits the deduplicator makes no
  Place, and the aggregator returns the StatsBundle with zero distance, zero places,
  zero countries, zero durations, zero carbon estimate and no records.
\<close>

theorem zero_segments_zero_results:
  assumes "data = JObj ps"
    and "property data k_semanticSegments = JArr [] \<or> \<not> truthy (property data k_semanticSegments)"
  shows "handleFileUpload env (FileText (Some data)) st =
           st\<lparr>allLocations := [], markers := [], statusText := Loaded 0\<rparr> \<and>
         dedupe thr [] = [] \<and>
         aggregate E resolve [] [] (dedupe thr []) =
           \<lparr> totalDistance = 0, uniquePlaces = 0, uniqueCountries = 0, movingDuration = 0,
             stationaryDuration = 0, carbonEstimate = 0, longestMovement = None,
             mostVisitedPlace = None \<rparr>"
proof -
  show ?thesis
    using no_segments [OF assms]
    by (simp add: handleFileUpload_eq nothing_to_render dedupe_Nil aggregate_empty)
qed

theorem zero_segments_zero_results_witness:
  "handleFileUpload plain_browser (FileText (Some (export_of []))) initial_state =
     initial_state\<lparr>allLocations := [], markers := [], statusText := Loaded 0\<rparr> \<and>
   handleFileUpload plain_browser (FileText (Some (JObj []))) initial_state =
     initial_state\<lparr>allLocations := [], markers := [], statusText := Loaded 0\<rparr> \<and>
   uniquePlaces (aggregate 1 (\<lambda>c. None) [] [] (dedupe 100 [])) = 0 \<and>
   totalDistance (aggregate 1 (\<lambda>c. None) [] [] (dedupe 100 [])) = 0"
proof -
  have a: "property (export_of []) k_semanticSegments = JArr [] \<or>
      \<not> truthy (property (export_of []) k_semanticSegments)"
    by (simp add: export_of_def property_def)
  have b: "property (JObj []) k_semanticSegments = JArr [] \<or>
      \<not> truthy (property (JObj []) k_semanticSegments)"
    by (simp add: property_def)
  show ?thesis
    using zero_segments_zero_results [OF export_of_def a, of plain_browser initial_state 100 1 "\<lambda>c. None"]
      zero_segments_zero_results [OF refl b, of plain_browser initial_state 100 1 "\<lambda>c. None"]
    by simp
qed


end
